theory Spec2Isabelle
  imports Complex_Main
begin

section \<open>Foundation model and digital twin demo: a shallow embedding\<close>

text \<open>
  The repository holds two near-duplicate Streamlit scripts. The full variant
  (\<^verbatim>\<open>streamlit_app.py\<close>) generates a synthetic cohort with numpy, trains two
  scikit-learn forests and reports on a selected patient. The simplified variant
  (\<^verbatim>\<open>streamlit_app_simple.py\<close>) generates the cohort with Python's \<^verbatim>\<open>random\<close>
  module and fakes the predictions.

  Conventions of the embedding:
  \<^item> Python and numpy floats are modelled as exact reals, so rounding error and
    infinities are outside the model; a NaN appears only as the value \<open>None\<close> of a
    quantity that is mathematically undefined;
  \<^item> every pseudo-random generator is an explicit state of an abstract type \<open>'g\<close>,
    threaded through the draws in the order in which the source makes them; the
    library's sampling routines are the fields of a record of operations;
  \<^item> scikit-learn's split and estimators, \<^verbatim>\<open>pd.get_dummies\<close> and the interpreter's
    string hash are parameters, since their code is not part of the repository; the
    three evaluation metrics are modelled from their description in the specification.
\<close>

subsection \<open>Numeric helpers\<close>

text \<open>\<^verbatim>\<open>int(x)\<close> and \<^verbatim>\<open>.astype(int)\<close> truncate towards zero.\<close>

definition py_int :: "real \<Rightarrow> int" where
  "py_int x = (if 0 \<le> x then \<lfloor>x\<rfloor> else \<lceil>x\<rceil>)"

text \<open>
  Rounding to the nearest integer, ties to the even neighbour: the rule of Python's
  \<^verbatim>\<open>round\<close> and of numpy's \<^verbatim>\<open>np.round\<close>.
\<close>

definition rint :: "real \<Rightarrow> int" where
  "rint x =
     (let f = \<lfloor>x\<rfloor>; d = x - of_int f
      in if d < 1 / 2 then f
         else if 1 / 2 < d then f + 1
         else if even f then f else f + 1)"

text \<open>\<^verbatim>\<open>round(x, n)\<close> and \<^verbatim>\<open>np.round(x, n)\<close> for a number of decimals \<open>n\<close>.\<close>

definition py_round :: "real \<Rightarrow> nat \<Rightarrow> real" where
  "py_round x n = of_int (rint (x * 10 ^ n)) / 10 ^ n"

text \<open>\<^verbatim>\<open>np.clip(a, lo, hi)\<close> is \<^verbatim>\<open>minimum(maximum(a, lo), hi)\<close>.\<close>

definition np_clip :: "'a::linorder \<Rightarrow> 'a \<Rightarrow> 'a \<Rightarrow> 'a" where
  "np_clip a lo hi = min (max a lo) hi"

subsection \<open>The patient table\<close>

datatype stage = IIIC | IV

datatype subtype = HGSOC | CCOC | Other

datatype brca = Wild_type | BRCA12_mut

text \<open>
  One row of the patient table (a dictionary in the simplified variant, a DataFrame row
  in the full one). The categorical fields hold the string constants
  \<^verbatim>\<open>'IIIC'\<close>, \<^verbatim>\<open>'IV'\<close>, \<^verbatim>\<open>'HGSOC'\<close>, \<^verbatim>\<open>'CCOC'\<close>, \<^verbatim>\<open>'Other'\<close>, \<^verbatim>\<open>'Wild-type'\<close> and
  \<^verbatim>\<open>'BRCA1/2_mut'\<close> in the source.
\<close>

record patient =
  pid :: string
  age :: int
  stage :: stage
  subtype :: subtype
  ca125 :: int
  brca_status :: brca
  survival_months :: real
  death_event :: nat
  platinum_resistant :: nat
  resistance_prob_true :: real

subsection \<open>The digital twin reporter\<close>

datatype risk = HIGH_RISK | MEDIUM_RISK | LOW_RISK

datatype treatment =
    Alternative_therapy
  | Platinum_with_monitoring
  | Standard_platinum

text \<open>
  The risk categorisation, the same \<^verbatim>\<open>if\<close>/\<^verbatim>\<open>elif\<close>/\<^verbatim>\<open>else\<close> chain in both scripts.
  It sets the category label and its display colour.
\<close>

definition risk_categorization :: "real \<Rightarrow> risk \<times> string" where
  "risk_categorization pred_survival =
     (if pred_survival < 15 then (HIGH_RISK, ''red'')
      else if pred_survival < 30 then (MEDIUM_RISK, ''orange'')
      else (LOW_RISK, ''green''))"

text \<open>The treatment recommendation, again the same chain in both scripts.\<close>

definition treatment_recommendation :: "real \<Rightarrow> treatment" where
  "treatment_recommendation pred_resistance_prob =
     (if pred_resistance_prob > 7 / 10 then Alternative_therapy
      else if pred_resistance_prob > 4 / 10 then Platinum_with_monitoring
      else Standard_platinum)"

record twin_report =
  pred_survival :: real
  pred_resistance_prob :: real
  risk_category :: risk
  risk_color :: string
  treatment_rec :: treatment
  actual_resistance :: string
  survival_error :: real
  resistance_correct :: bool

text \<open>
  Everything the report derives from the two predictions and the selected patient's row;
  the code from the risk categorisation to the validation section is the same in both
  scripts.
\<close>

definition make_report :: "patient \<Rightarrow> real \<Rightarrow> real \<Rightarrow> twin_report" where
  "make_report patient_info ps pr =
     \<lparr> pred_survival = ps,
       pred_resistance_prob = pr,
       risk_category = fst (risk_categorization ps),
       risk_color = snd (risk_categorization ps),
       treatment_rec = treatment_recommendation pr,
       actual_resistance =
         (if platinum_resistant patient_info = 1 then ''RESISTANT'' else ''SENSITIVE''),
       survival_error = \<bar>ps - survival_months patient_info\<bar>,
       resistance_correct = ((pr > 1 / 2) = (platinum_resistant patient_info = 1)) \<rparr>"

text \<open>
  The full variant asks the two fitted forests: \<^verbatim>\<open>survival_model.predict(row)[0]\<close> and
  \<^verbatim>\<open>resistance_model.predict_proba(row)[0, 1]\<close>. A fitted estimator is an opaque
  function of the feature row.
\<close>

record fitted_models =
  predict :: "real list \<Rightarrow> real"
  predict_proba1 :: "real list \<Rightarrow> real"

definition twin_report_full ::
  "fitted_models \<Rightarrow> patient \<Rightarrow> real list \<Rightarrow> twin_report" where
  "twin_report_full models patient_info patient_features =
     make_report patient_info
       (predict models patient_features) (predict_proba1 models patient_features)"

subsection \<open>Pseudo-random number generation\<close>

text \<open>
  The state of a generator (Python's module-level \<^verbatim>\<open>random\<close> instance, numpy's global
  \<^verbatim>\<open>RandomState\<close>) is a value of type \<open>'g\<close>. Seeding returns a state that depends on the
  seed alone; every draw returns the value drawn and the next state.
\<close>

record 'g sampler =
  rng_seed :: "int \<Rightarrow> 'g"
  rng_random :: "'g \<Rightarrow> real \<times> 'g"
  rng_gauss :: "real \<Rightarrow> real \<Rightarrow> 'g \<Rightarrow> real \<times> 'g"
  rng_lognormal :: "real \<Rightarrow> real \<Rightarrow> 'g \<Rightarrow> real \<times> 'g"
  rng_binomial :: "nat \<Rightarrow> real \<Rightarrow> 'g \<Rightarrow> nat \<times> 'g"

text \<open>\<open>n\<close> successive draws, as a \<^verbatim>\<open>size=n\<close> argument makes them.\<close>

fun draws :: "('g \<Rightarrow> 'a \<times> 'g) \<Rightarrow> nat \<Rightarrow> 'g \<Rightarrow> 'a list \<times> 'g" where
  "draws d 0 g = ([], g)"
| "draws d (Suc n) g =
     (let (x, g1) = d g; (xs, g2) = draws d n g1 in (x # xs, g2))"

text \<open>One draw per element of a parameter array.\<close>

fun draws_each :: "('p \<Rightarrow> 'g \<Rightarrow> 'a \<times> 'g) \<Rightarrow> 'p list \<Rightarrow> 'g \<Rightarrow> 'a list \<times> 'g" where
  "draws_each d [] g = ([], g)"
| "draws_each d (p # ps) g =
     (let (x, g1) = d p g; (xs, g2) = draws_each d ps g1 in (x # xs, g2))"

text \<open>Running sums, \<^verbatim>\<open>itertools.accumulate\<close> and \<^verbatim>\<open>cumsum\<close>.\<close>

fun accumulate :: "real \<Rightarrow> real list \<Rightarrow> real list" where
  "accumulate acc [] = []"
| "accumulate acc (w # ws) = (acc + w) # accumulate (acc + w) ws"

text \<open>
  A weighted choice from a uniform draw \<open>u\<close>. \<^verbatim>\<open>random.choices\<close> bisects the cumulative
  weights below the last one for \<open>u * total\<close>; \<^verbatim>\<open>np.random.choice\<close> searches the
  normalised cumulative weights for \<open>u\<close> from the right, which is the same index for
  every \<open>u < 1\<close>, the only values the library draws.
\<close>

definition weighted_choice :: "'a list \<Rightarrow> real list \<Rightarrow> real \<Rightarrow> 'a" where
  "weighted_choice population weights u =
     (let cum_weights = accumulate 0 weights;
          total = last cum_weights;
          hi = length population - 1
      in population ! length (filter (\<lambda>c. c \<le> u * total) (take hi cum_weights)))"

definition rng_choice ::
  "'g sampler \<Rightarrow> 'a list \<Rightarrow> real list \<Rightarrow> 'g \<Rightarrow> 'a \<times> 'g" where
  "rng_choice ops population weights g =
     (let (u, g1) = rng_random ops g in (weighted_choice population weights u, g1))"

subsection \<open>Patient identifiers\<close>

text \<open>The format specification \<^verbatim>\<open>{i:03d}\<close>: decimal digits, zero-padded to width 3.\<close>

definition digit :: "nat \<Rightarrow> char" where
  "digit d = ''0123456789'' ! d"

fun decimal :: "nat \<Rightarrow> string" where
  "decimal n = (if n < 10 then [digit n] else decimal (n div 10) @ [digit (n mod 10)])"

declare decimal.simps [simp del]

definition zfill :: "nat \<Rightarrow> string \<Rightarrow> string" where
  "zfill w s = replicate (w - length s) CHR ''0'' @ s"

definition patient_id :: "nat \<Rightarrow> string" where
  "patient_id i = ''OV'' @ zfill 3 (decimal i)"



subsection \<open>Outcome model shared by both scripts\<close>

definition base_survival :: "subtype \<Rightarrow> real" where
  "base_survival s = (if s = HGSOC then 28 else if s = CCOC then 20 else 24)"

definition age_effect :: "int \<Rightarrow> real" where
  "age_effect a = - (25 / 100) * of_int (a - 65) / 12"

definition stage_effect :: "stage \<Rightarrow> real" where
  "stage_effect s = (if s = IV then - 6 else 0)"

definition brca_effect :: "brca \<Rightarrow> real" where
  "brca_effect b = (if b = BRCA12_mut then 8 else 0)"

definition resist_base :: "subtype \<Rightarrow> real" where
  "resist_base s = (if s = HGSOC then 30 / 100 else if s = CCOC then 70 / 100 else 45 / 100)"

definition brca_resist :: "brca \<Rightarrow> real" where
  "brca_resist b = (if b = BRCA12_mut then - (35 / 100) else 0)"

subsection \<open>Cohort generation, simplified variant\<close>

text \<open>
  The values one pass of the generation loop draws, in the order of the draws:
  \<^verbatim>\<open>gauss(65, 12)\<close>, three uniform draws inside \<^verbatim>\<open>random.choices\<close> interleaved with
  \<^verbatim>\<open>lognormvariate(6, 1.2)\<close>, \<^verbatim>\<open>gauss(0, 4)\<close>, \<^verbatim>\<open>random()\<close>, \<^verbatim>\<open>gauss(0, 0.15)\<close> and
  \<^verbatim>\<open>random()\<close>. No draw depends on a value computed from an earlier one.
\<close>

record simple_draws =
  age_draw :: real
  stage_u :: real
  subtype_u :: real
  ca125_draw :: real
  brca_u :: real
  survival_noise :: real
  death_u :: real
  resistance_noise :: real
  resistant_u :: real

definition draw_simple :: "'g sampler \<Rightarrow> 'g \<Rightarrow> simple_draws \<times> 'g" where
  "draw_simple ops g0 =
     (let (a, g1) = rng_gauss ops 65 12 g0;
          (us, g2) = rng_random ops g1;
          (ut, g3) = rng_random ops g2;
          (c, g4) = rng_lognormal ops 6 (12 / 10) g3;
          (ub, g5) = rng_random ops g4;
          (ns, g6) = rng_gauss ops 0 4 g5;
          (ud, g7) = rng_random ops g6;
          (nr, g8) = rng_gauss ops 0 (15 / 100) g7;
          (ur, g9) = rng_random ops g8
      in (\<lparr> age_draw = a, stage_u = us, subtype_u = ut, ca125_draw = c, brca_u = ub,
            survival_noise = ns, death_u = ud, resistance_noise = nr, resistant_u = ur \<rparr>,
          g9))"

text \<open>The body of the loop: the patient with ordinal \<open>i\<close> from the values drawn.\<close>

definition simple_patient :: "nat \<Rightarrow> simple_draws \<Rightarrow> patient" where
  "simple_patient i d =
     (let p_age = max 35 (min 85 (py_int (age_draw d)));
          p_stage = weighted_choice [IIIC, IV] [75 / 100, 25 / 100] (stage_u d);
          p_subtype =
            weighted_choice [HGSOC, CCOC, Other] [60 / 100, 25 / 100, 15 / 100] (subtype_u d);
          p_ca125 = max 10 (py_int (ca125_draw d));
          p_brca = weighted_choice [Wild_type, BRCA12_mut] [80 / 100, 20 / 100] (brca_u d);
          survival =
            max 2 (base_survival p_subtype + age_effect p_age + stage_effect p_stage
                   + brca_effect p_brca + survival_noise d);
          resistance_prob =
            max (5 / 100)
              (min (95 / 100) (resist_base p_subtype + brca_resist p_brca + resistance_noise d))
      in \<lparr> pid = patient_id i,
           age = p_age,
           stage = p_stage,
           subtype = p_subtype,
           ca125 = p_ca125,
           brca_status = p_brca,
           survival_months = py_round survival 1,
           death_event = (if death_u d < 1 / (1 + exp ((survival - 24) / 10)) then 1 else 0),
           platinum_resistant = (if resistant_u d < resistance_prob then 1 else 0),
           resistance_prob_true = py_round resistance_prob 3 \<rparr>)"

text \<open>The loop \<^verbatim>\<open>for i in range(1, 201)\<close>, over the list of ordinals.\<close>

fun cohort_loop :: "'g sampler \<Rightarrow> nat list \<Rightarrow> 'g \<Rightarrow> patient list \<times> 'g" where
  "cohort_loop ops [] g = ([], g)"
| "cohort_loop ops (i # is) g =
     (let (d, g1) = draw_simple ops g;
          (ps, g2) = cohort_loop ops is g1
      in (simple_patient i d # ps, g2))"

text \<open>
  The initialisation block of the simplified script: \<^verbatim>\<open>random.seed(42)\<close>, then the loop.
  The argument is the state of the generator before the block runs.
\<close>

definition generate_cohort_simple :: "'g sampler \<Rightarrow> 'g \<Rightarrow> patient list \<times> 'g" where
  "generate_cohort_simple ops g = cohort_loop ops [1..<201] (rng_seed ops 42)"

subsection \<open>The reporter of the simplified variant\<close>

text \<open>
  \<^verbatim>\<open>next(p for p in patients if p['id'] == selected_patient_id)\<close>: the first patient with
  the selected identifier, \<open>None\<close> standing for \<^verbatim>\<open>StopIteration\<close>.
\<close>

definition select_patient :: "patient list \<Rightarrow> string \<Rightarrow> patient option" where
  "select_patient patients selected_patient_id =
     find (\<lambda>p. pid p = selected_patient_id) patients"

text \<open>
  The simplified script has no model. It reseeds the generator with
  \<^verbatim>\<open>hash(selected_patient_id) % 1000\<close> and perturbs the patient's true outcome. The
  interpreter's string hash is the parameter \<open>hash\<close>: CPython salts it per process.
\<close>

definition twin_report_simple ::
  "'g sampler \<Rightarrow> (string \<Rightarrow> int) \<Rightarrow> patient \<Rightarrow> 'g \<Rightarrow> twin_report \<times> 'g" where
  "twin_report_simple ops hash selected_patient g =
     (let g0 = rng_seed ops (hash (pid selected_patient) mod 1000);
          (e1, g1) = rng_gauss ops 0 3 g0;
          ps = max 2 (survival_months selected_patient + e1);
          base_resist = resist_base (subtype selected_patient);
          brca_adjust =
            (if brca_status selected_patient = BRCA12_mut then - (3 / 10) else 0);
          (e2, g2) = rng_gauss ops 0 (1 / 10) g1;
          pr = max (5 / 100) (min (95 / 100) (base_resist + brca_adjust + e2))
      in (make_report selected_patient ps pr, g2))"

subsection \<open>Cohort generation, full variant\<close>

text \<open>
  A DataFrame of numeric columns is the list of its named columns, in column order.
  \<^verbatim>\<open>df[name]\<close> reads a column and raises \<^verbatim>\<open>KeyError\<close> for a name the frame lacks;
  every name the generator reads is a constant of the column list it has just built,
  so the default below is never reached from the generator.
\<close>

type_synonym dataframe = "(string \<times> real list) list"

definition column :: "dataframe \<Rightarrow> string \<Rightarrow> real list" where
  "column df name = (case map_of df name of Some c \<Rightarrow> c | None \<Rightarrow> [])"

definition gene_names :: "string list" where
  "gene_names =
     [''TP53'', ''BRCA1'', ''BRCA2'', ''PIK3CA'', ''PTEN'', ''MYC'', ''CCNE1'', ''RB1'',
      ''KRAS'', ''AKT1'']
     @ map (\<lambda>i. ''GENE_'' @ zfill 3 (decimal i)) [11..<51]"

definition cnv_arms :: "string list" where
  "cnv_arms =
     [''1p'', ''1q'', ''3q'', ''6p'', ''8q'', ''11p'', ''17p'', ''17q'', ''19p'', ''20q'',
      ''22q'']"

text \<open>The columns of the patient table before the outcomes are added.\<close>

record metadata =
  m_id :: "string list"
  m_age :: "int list"
  m_stage :: "stage list"
  m_subtype :: "subtype list"
  m_ca125 :: "int list"
  m_brca_status :: "brca list"

definition patient_metadata :: "'g sampler \<Rightarrow> nat \<Rightarrow> 'g \<Rightarrow> metadata \<times> 'g" where
  "patient_metadata ops n_patients g0 =
     (let (a, g1) = draws (rng_gauss ops 65 12) n_patients g0;
          (st, g2) = draws (rng_choice ops [IIIC, IV] [75 / 100, 25 / 100]) n_patients g1;
          (su, g3) =
            draws (rng_choice ops [HGSOC, CCOC, Other] [60 / 100, 25 / 100, 15 / 100])
              n_patients g2;
          (c, g4) = draws (rng_lognormal ops 6 (12 / 10)) n_patients g3;
          (b, g5) =
            draws (rng_choice ops [Wild_type, BRCA12_mut] [80 / 100, 20 / 100]) n_patients g4
      in (\<lparr> m_id = map patient_id [1..<n_patients + 1],
            m_age = map (\<lambda>x. np_clip (py_int x) 35 85) a,
            m_stage = st,
            m_subtype = su,
            m_ca125 = map (\<lambda>x. np_clip (py_int x) 10 50000) c,
            m_brca_status = b \<rparr>,
          g5))"

text \<open>
  \<^verbatim>\<open>row[mask] += addend\<close>: the entries of \<open>row\<close> at the positions where the mask holds
  receive the entries of \<open>addend\<close>, in order.
\<close>

fun add_masked :: "bool list \<Rightarrow> real list \<Rightarrow> real list \<Rightarrow> real list" where
  "add_masked (True # ms) (x # xs) (a # as) = (x + a) # add_masked ms xs as"
| "add_masked (False # ms) (x # xs) as = x # add_masked ms xs as"
| "add_masked ms xs as = xs"

text \<open>
  The gene expression array, one row per gene and one column per patient, with the
  subtype signatures added to rows 0 to 9 and 10 to 19.
\<close>

definition gene_expression ::
  "'g sampler \<Rightarrow> subtype list \<Rightarrow> nat \<Rightarrow> 'g \<Rightarrow> real list list \<times> 'g" where
  "gene_expression ops subtypes n_patients g0 =
     (let (gene_data, g1) =
            draws (draws (rng_gauss ops 5 2) n_patients) (length gene_names) g0;
          hgsoc_mask = map (\<lambda>s. s = HGSOC) subtypes;
          ccoc_mask = map (\<lambda>s. s = CCOC) subtypes;
          (h, g2) =
            draws (draws (rng_gauss ops (15 / 10) (4 / 10)) (length (filter id hgsoc_mask)))
              10 g1;
          gene_data1 =
            map2 (add_masked hgsoc_mask) (take 10 gene_data) h @ drop 10 gene_data;
          (c, g3) =
            draws (draws (rng_gauss ops (18 / 10) (3 / 10)) (length (filter id ccoc_mask)))
              10 g2;
          gene_data2 =
            take 10 gene_data1
            @ map2 (add_masked ccoc_mask) (take 10 (drop 10 gene_data1)) c
            @ drop 20 gene_data1
      in (gene_data2, g3))"

text \<open>The copy number array, one row per chromosome arm.\<close>

definition copy_number ::
  "'g sampler \<Rightarrow> subtype list \<Rightarrow> nat \<Rightarrow> 'g \<Rightarrow> real list list \<times> 'g" where
  "copy_number ops subtypes n_patients g0 =
     (let hgsoc_mask = map (\<lambda>s. s = HGSOC) subtypes;
          (cnv_data, g1) =
            draws (draws (rng_gauss ops 0 (35 / 100)) n_patients) (length cnv_arms) g0;
          (gain3q, g2) =
            draws (rng_gauss ops (4 / 10) (2 / 10)) (length (filter id hgsoc_mask)) g1;
          cnv_data1 = cnv_data[2 := add_masked hgsoc_mask (cnv_data ! 2) gain3q];
          (gain8q, g3) = draws (rng_gauss ops (3 / 10) (25 / 100)) n_patients g2;
          cnv_data2 = cnv_data1[4 := map2 (+) (cnv_data1 ! 4) gain8q]
      in (cnv_data2, g3))"

text \<open>The outcome columns, computed element by element over the patients.\<close>

record outcome_columns =
  o_survival_months :: "real list"
  o_death_event :: "nat list"
  o_resistance_prob :: "real list"
  o_platinum_resistant :: "nat list"

definition outcomes ::
  "'g sampler \<Rightarrow> metadata \<Rightarrow> dataframe \<Rightarrow> dataframe \<Rightarrow> nat \<Rightarrow> 'g
     \<Rightarrow> outcome_columns \<times> 'g" where
  "outcomes ops patients gene_df cnv_df n_patients g0 =
     (let rows = [0..<n_patients];
          gene_effect =
            map (\<lambda>i. (column gene_df ''TP53'' ! i + column gene_df ''BRCA1'' ! i
                        + column gene_df ''PTEN'' ! i) / 3 * (15 / 10)) rows;
          cnv_effect =
            map (\<lambda>i. - sum_list (map (\<lambda>(name, c). \<bar>c ! i\<bar>) cnv_df) * (5 / 10)) rows;
          (noise, g1) = draws (rng_gauss ops 0 4) n_patients g0;
          survival =
            map (\<lambda>i. np_clip
                        (base_survival (m_subtype patients ! i) + age_effect (m_age patients ! i)
                         + stage_effect (m_stage patients ! i)
                         + brca_effect (m_brca_status patients ! i)
                         + gene_effect ! i + cnv_effect ! i + noise ! i) 2 80) rows;
          (death, g2) =
            draws_each (rng_binomial ops 1)
              (map (\<lambda>s. 1 / (1 + exp ((s - 24) / 10))) survival) g1;
          gene_resist_effect =
            map (\<lambda>i. tanh (column gene_df ''PIK3CA'' ! i * (2 / 10)
                             - column gene_df ''BRCA1'' ! i * (1 / 10))) rows;
          (resist_noise, g3) = draws (rng_gauss ops 0 (15 / 100)) n_patients g2;
          resistance_prob =
            map (\<lambda>i. np_clip
                        (resist_base (m_subtype patients ! i)
                         + brca_resist (m_brca_status patients ! i)
                         + gene_resist_effect ! i + resist_noise ! i) (5 / 100) (95 / 100)) rows;
          (resistant, g4) = draws_each (rng_binomial ops 1) resistance_prob g3
      in (\<lparr> o_survival_months = survival, o_death_event = death,
            o_resistance_prob = resistance_prob, o_platinum_resistant = resistant \<rparr>,
          g4))"

text \<open>The rows of the finished patient table.\<close>

definition patient_rows :: "metadata \<Rightarrow> outcome_columns \<Rightarrow> nat \<Rightarrow> patient list" where
  "patient_rows patients out n_patients =
     map (\<lambda>i. \<lparr> pid = m_id patients ! i,
                 age = m_age patients ! i,
                 stage = m_stage patients ! i,
                 subtype = m_subtype patients ! i,
                 ca125 = m_ca125 patients ! i,
                 brca_status = m_brca_status patients ! i,
                 survival_months = py_round (o_survival_months out ! i) 1,
                 death_event = o_death_event out ! i,
                 platinum_resistant = o_platinum_resistant out ! i,
                 resistance_prob_true = py_round (o_resistance_prob out ! i) 3 \<rparr>)
       [0..<n_patients]"

text \<open>
  The feature matrix for the models. \<^verbatim>\<open>pd.get_dummies\<close> is library code: the parameter
  \<open>get_dummies\<close> maps the age, stage, subtype and BRCA columns to the frame of clinical
  features. The column \<^verbatim>\<open>log_ca125\<close> is appended to that frame, then
  \<^verbatim>\<open>gene_df.iloc[:, :20]\<close> and \<^verbatim>\<open>cnv_df\<close> are concatenated column-wise.
\<close>

definition feature_matrix ::
  "(metadata \<Rightarrow> dataframe) \<Rightarrow> metadata \<Rightarrow> dataframe \<Rightarrow> dataframe \<Rightarrow> dataframe" where
  "feature_matrix get_dummies patients gene_df cnv_df =
     (let clinical_features =
            get_dummies patients
            @ [(''log_ca125'', map (\<lambda>c. log 10 (of_int c)) (m_ca125 patients))]
      in clinical_features @ take 20 gene_df @ cnv_df)"

text \<open>
  \<^verbatim>\<open>generate_demo_data(n_patients)\<close> seeds numpy's global generator with 42 and builds,
  in this order, the patient columns, the gene expression frame, the copy number frame
  and the outcome columns. \<open>generate_frames\<close> is the function body up to the outcomes,
  with the state of the generator after the last draw.
\<close>

definition generate_frames ::
  "'g sampler \<Rightarrow> nat \<Rightarrow> (metadata \<times> dataframe \<times> dataframe \<times> outcome_columns) \<times> 'g" where
  "generate_frames ops n_patients =
     (let g0 = rng_seed ops 42;
          (patients, g1) = patient_metadata ops n_patients g0;
          (gene_data, g2) = gene_expression ops (m_subtype patients) n_patients g1;
          gene_df = zip gene_names gene_data;
          (cnv_data, g3) = copy_number ops (m_subtype patients) n_patients g2;
          cnv_df = zip (map (\<lambda>arm. ''cnv_'' @ arm) cnv_arms) cnv_data;
          (out, g4) = outcomes ops patients gene_df cnv_df n_patients g3
      in ((patients, gene_df, cnv_df, out), g4))"

text \<open>
  The whole function: it returns the patient table with the outcome columns and the
  feature matrix. The last argument is the state of the global generator before the
  call, the second component of the result its state after the call.
\<close>

definition generate_demo_data ::
  "'g sampler \<Rightarrow> (metadata \<Rightarrow> dataframe) \<Rightarrow> nat \<Rightarrow> 'g
     \<Rightarrow> (patient list \<times> dataframe) \<times> 'g" where
  "generate_demo_data ops get_dummies n_patients g =
     (case generate_frames ops n_patients of
        ((patients, gene_df, cnv_df, out), g4) \<Rightarrow>
          ((patient_rows patients out n_patients,
            feature_matrix get_dummies patients gene_df cnv_df), g4))"

text \<open>
  The reporter of the full variant reads the selected patient's row of both tables:
  \<^verbatim>\<open>patients[patients['id'] == selected_patient_id].index[0]\<close> is the position of the
  first patient with that identifier, \<open>None\<close> standing for the \<^verbatim>\<open>IndexError\<close>.
\<close>

fun patient_index :: "patient list \<Rightarrow> string \<Rightarrow> nat option" where
  "patient_index [] selected = None"
| "patient_index (p # ps) selected =
     (if pid p = selected then Some 0 else map_option Suc (patient_index ps selected))"

definition feature_row :: "dataframe \<Rightarrow> nat \<Rightarrow> real list" where
  "feature_row features i = map (\<lambda>(name, c). c ! i) features"

definition digital_twin_full ::
  "fitted_models \<Rightarrow> patient list \<Rightarrow> dataframe \<Rightarrow> string \<Rightarrow> twin_report option" where
  "digital_twin_full models patients features selected_patient_id =
     (case patient_index patients selected_patient_id of
        None \<Rightarrow> None
      | Some patient_idx \<Rightarrow>
          Some (twin_report_full models (patients ! patient_idx)
                  (feature_row features patient_idx)))"

text \<open>
  The part of the body of \<^verbatim>\<open>generate_demo_data\<close> that follows the construction of the gene
  expression frame, as a function of that frame: the copy number frame and the outcome
  columns. It serves to state what the rest of the program reads of the gene frame.
\<close>

definition frames_from_genes ::
  "'g sampler \<Rightarrow> nat \<Rightarrow> metadata \<Rightarrow> dataframe \<Rightarrow> 'g
     \<Rightarrow> (metadata \<times> dataframe \<times> dataframe \<times> outcome_columns) \<times> 'g" where
  "frames_from_genes ops n_patients patients gene_df g2 =
     (let (cnv_data, g3) = copy_number ops (m_subtype patients) n_patients g2;
          cnv_df = zip (map (\<lambda>arm. ''cnv_'' @ arm) cnv_arms) cnv_data;
          (out, g4) = outcomes ops patients gene_df cnv_df n_patients g3
      in ((patients, gene_df, cnv_df, out), g4))"

subsection \<open>Evaluation metrics\<close>

datatype py_error = ValueError | IndexError

text \<open>
  Modelled from the spec: the mean absolute error of the survival predictions, which the
  trainer obtains from scikit-learn's \<^verbatim>\<open>mean_absolute_error\<close>; the library's code is not
  part of the repository. It is the mean of the absolute differences between label and
  prediction; the library raises \<^verbatim>\<open>ValueError\<close> for samples of different length and for
  empty samples.
\<close>

definition mean_absolute_error :: "real list \<Rightarrow> real list \<Rightarrow> py_error + real" where
  "mean_absolute_error y_true y_pred =
     (if length y_true \<noteq> length y_pred \<or> y_true = [] then Inl ValueError
      else Inr (sum_list (map2 (\<lambda>y p. \<bar>y - p\<bar>) y_true y_pred) / of_nat (length y_true)))"

text \<open>
  Modelled from the spec: the Pearson correlation of predictions and labels, which the
  trainer reads from numpy's \<^verbatim>\<open>np.corrcoef(x, y)[0, 1]\<close>; numpy's code is not part of the
  repository. It is the sum of the products of the deviations from the two means,
  divided by the square roots of the two sums of squared deviations. Where one of the
  samples has no variation the quotient is undefined and the result is \<open>None\<close>; numpy
  then reports a NaN. Samples of different length are rejected by numpy; the trainer
  calls it after \<open>mean_absolute_error\<close> has accepted the same two samples.
\<close>

definition mean :: "real list \<Rightarrow> real" where
  "mean xs = sum_list xs / of_nat (length xs)"

definition pearson_correlation :: "real list \<Rightarrow> real list \<Rightarrow> real option" where
  "pearson_correlation xs ys =
     (let dx = map (\<lambda>x. x - mean xs) xs;
          dy = map (\<lambda>y. y - mean ys) ys;
          sxy = sum_list (map2 (*) dx dy);
          sxx = sum_list (map2 (*) dx dx);
          syy = sum_list (map2 (*) dy dy)
      in if length xs \<noteq> length ys \<or> sxx = 0 \<or> syy = 0 then None
         else Some (sxy / (sqrt sxx * sqrt syy)))"

text \<open>
  Modelled from the spec: the area under the ROC curve of the resistance probabilities,
  which the trainer obtains from scikit-learn's \<^verbatim>\<open>roc_auc_score\<close>; the library's code is
  not part of the repository. The thresholds are the distinct scores in descending
  order. The curve starts at the origin and has, for every threshold \<open>t\<close>, the point
  whose abscissa is the share of the negative samples with a score of at least \<open>t\<close> and
  whose ordinate is that share of the positive samples (label 1). The area is taken by
  the trapezoidal rule. With no positive or no negative sample the curve is undefined
  and the library raises \<^verbatim>\<open>ValueError\<close>.
\<close>

definition roc_thresholds :: "real list \<Rightarrow> real list" where
  "roc_thresholds y_score = rev (sort (remdups y_score))"

definition rate_at :: "bool list \<Rightarrow> real list \<Rightarrow> real \<Rightarrow> real" where
  "rate_at selected y_score t =
     of_nat (length (filter (\<lambda>(s, x). s \<and> t \<le> x) (zip selected y_score)))
     / of_nat (length (filter id selected))"

definition roc_curve :: "nat list \<Rightarrow> real list \<Rightarrow> (real \<times> real) list" where
  "roc_curve y_true y_score =
     (0, 0) # map (\<lambda>t. (rate_at (map (\<lambda>y. y \<noteq> 1) y_true) y_score t,
                         rate_at (map (\<lambda>y. y = 1) y_true) y_score t))
                (roc_thresholds y_score)"

fun trapezoid :: "(real \<times> real) list \<Rightarrow> real" where
  "trapezoid ((x0, y0) # (x1, y1) # ps) =
     (x1 - x0) * (y0 + y1) / 2 + trapezoid ((x1, y1) # ps)"
| "trapezoid ps = 0"

definition roc_auc_score :: "nat list \<Rightarrow> real list \<Rightarrow> py_error + real" where
  "roc_auc_score y_true y_score =
     (if length y_true \<noteq> length y_score then Inl ValueError
      else if \<not> list_ex (\<lambda>y. y = 1) y_true \<or> \<not> list_ex (\<lambda>y. y \<noteq> 1) y_true
      then Inl ValueError
      else Inr (trapezoid (roc_curve y_true y_score)))"

subsection \<open>The model trainer\<close>

text \<open>
  scikit-learn is a parameter of the trainer: the split, which may raise, and the two
  fitting routines, whose results are the fitted estimators. A fitted regressor maps a
  feature row to a prediction, a fitted classifier maps it to the row of class
  probabilities that \<^verbatim>\<open>predict_proba\<close> returns, one probability per class seen in
  training. The arguments are those of the calls in \<^verbatim>\<open>train_models\<close>: the three arrays,
  \<^verbatim>\<open>test_size\<close>, \<^verbatim>\<open>random_state\<close> and the \<^verbatim>\<open>stratify\<close> array for the split;
  \<^verbatim>\<open>n_estimators\<close>, \<^verbatim>\<open>random_state\<close> and the training data for the fits.
\<close>

record split_result =
  X_train :: "real list list"
  X_test :: "real list list"
  y_surv_train :: "real list"
  y_surv_test :: "real list"
  y_resist_train :: "nat list"
  y_resist_test :: "nat list"

record learner =
  train_test_split ::
    "real list list \<Rightarrow> real list \<Rightarrow> nat list \<Rightarrow> real \<Rightarrow> int \<Rightarrow> nat list
       \<Rightarrow> py_error + split_result"
  fit_regressor :: "nat \<Rightarrow> int \<Rightarrow> real list list \<Rightarrow> real list \<Rightarrow> real list \<Rightarrow> real"
  fit_classifier :: "nat \<Rightarrow> int \<Rightarrow> real list list \<Rightarrow> nat list \<Rightarrow> real list \<Rightarrow> real list"

text \<open>
  The dictionary of metrics. The correlation is \<open>None\<close> where it is undefined; the trainer
  stores whatever \<^verbatim>\<open>np.corrcoef\<close> returns.
\<close>

record metrics =
  survival_mae :: real
  survival_cor :: "real option"
  resistance_auc :: real

text \<open>\<^verbatim>\<open>proba[:, 1]\<close>: the second entry of every row, an \<^verbatim>\<open>IndexError\<close> if a row has none.\<close>

definition proba_column1 :: "real list list \<Rightarrow> py_error + real list" where
  "proba_column1 proba =
     (if list_all (\<lambda>row. 1 < length row) proba then Inr (map (\<lambda>row. row ! 1) proba)
      else Inl IndexError)"

text \<open>
  \<^verbatim>\<open>train_models(features, targets)\<close>. The targets are the columns \<^verbatim>\<open>survival_months\<close>
  and \<^verbatim>\<open>platinum_resistant\<close> of the patient table. The function has no \<^verbatim>\<open>try\<close> and tests
  nothing before the split: an exception of any call ends it.
\<close>

definition train_models ::
  "learner \<Rightarrow> dataframe \<Rightarrow> patient list
     \<Rightarrow> py_error + ((real list \<Rightarrow> real) \<times> (real list \<Rightarrow> real list) \<times> metrics
                     \<times> (real list list \<times> real list \<times> nat list))" where
  "train_models sk features targets =
     (let X = map (feature_row features) [0..<length targets];
          survival = map survival_months targets;
          resistant = map platinum_resistant targets
      in case train_test_split sk X survival resistant (3 / 10) 42 resistant of
           Inl e \<Rightarrow> Inl e
         | Inr s \<Rightarrow>
             (let survival_model = fit_regressor sk 100 42 (X_train s) (y_surv_train s);
                  resistance_model = fit_classifier sk 100 42 (X_train s) (y_resist_train s);
                  surv_pred = map survival_model (X_test s)
              in case proba_column1 (map resistance_model (X_test s)) of
                   Inl e \<Rightarrow> Inl e
                 | Inr resist_pred_prob \<Rightarrow>
                     (case mean_absolute_error (y_surv_test s) surv_pred of
                        Inl e \<Rightarrow> Inl e
                      | Inr mae \<Rightarrow>
                          (case roc_auc_score (y_resist_test s) resist_pred_prob of
                             Inl e \<Rightarrow> Inl e
                           | Inr auc \<Rightarrow>
                               Inr (survival_model, resistance_model,
                                    \<lparr> survival_mae = mae,
                                      survival_cor =
                                        pearson_correlation surv_pred (y_surv_test s),
                                      resistance_auc = auc \<rparr>,
                                    (X_test s, y_surv_test s, y_resist_test s))))))"

text \<open>The metrics of a run of the trainer that returned.\<close>

definition returned_metrics ::
  "py_error + ('a \<times> 'b \<times> metrics \<times> 'c) \<Rightarrow> metrics option" where
  "returned_metrics r = (case r of Inl e \<Rightarrow> None | Inr (sm, rm, m, td) \<Rightarrow> Some m)"

text \<open>A sample is constant when all its values are equal.\<close>

definition is_constant :: "real list \<Rightarrow> bool" where
  "is_constant xs = (case xs of [] \<Rightarrow> True | x # rest \<Rightarrow> list_all (\<lambda>y. y = x) rest)"

text \<open>
  The training step of the script: \<^verbatim>\<open>patients, features = generate_demo_data()\<close> with the
  default of 200 patients, \<^verbatim>\<open>targets = patients[['survival_months', 'platinum_resistant']]\<close>,
  then \<^verbatim>\<open>train_models(features, targets)\<close>. The trainer reads the two target columns of the
  rows it is given.
\<close>

definition demo_training ::
  "learner \<Rightarrow> 'g sampler \<Rightarrow> (metadata \<Rightarrow> dataframe) \<Rightarrow> 'g
     \<Rightarrow> py_error + ((real list \<Rightarrow> real) \<times> (real list \<Rightarrow> real list) \<times> metrics
                     \<times> (real list list \<times> real list \<times> nat list))" where
  "demo_training sk ops get_dummies g =
     (case generate_demo_data ops get_dummies 200 g of
        ((patients, features), g1) \<Rightarrow> train_models sk features patients)"

text \<open>
  The same two steps on given frames: the patient table and the feature matrix as
  \<^verbatim>\<open>generate_demo_data\<close> builds them from the frames, then the trainer.
\<close>

definition train_on_frames ::
  "learner \<Rightarrow> (metadata \<Rightarrow> dataframe) \<Rightarrow> nat
     \<Rightarrow> metadata \<times> dataframe \<times> dataframe \<times> outcome_columns
     \<Rightarrow> py_error + ((real list \<Rightarrow> real) \<times> (real list \<Rightarrow> real list) \<times> metrics
                     \<times> (real list list \<times> real list \<times> nat list))" where
  "train_on_frames sk get_dummies n_patients frames =
     (case frames of
        (patients, gene_df, cnv_df, out) \<Rightarrow>
          train_models sk (feature_matrix get_dummies patients gene_df cnv_df)
            (patient_rows patients out n_patients))"

subsection \<open>Concrete inputs\<close>

text \<open>A patient row and a small deterministic sampler, used to evaluate the model.\<close>

definition sample_patient :: patient where
  "sample_patient =
     \<lparr> pid = ''OV001'', age = 65, stage = IIIC, subtype = HGSOC, ca125 = 400,
       brca_status = BRCA12_mut, survival_months = 36, death_event = 0,
       platinum_resistant = 0, resistance_prob_true = 5 / 100 \<rparr>"

definition counting_sampler :: "nat sampler" where
  "counting_sampler =
     \<lparr> rng_seed = (\<lambda>s. nat \<bar>s\<bar>),
       rng_random = (\<lambda>g. (of_nat (g mod 4) / 4, Suc g)),
       rng_gauss = (\<lambda>mu sigma g. (mu + sigma * (of_nat (g mod 5) - 2), Suc g)),
       rng_lognormal = (\<lambda>mu sigma g. (400 + of_nat (g mod 7), Suc g)),
       rng_binomial = (\<lambda>n p g. (if of_nat (g mod 4) / 4 < p then n else 0, Suc g)) \<rparr>"

text \<open>
  A stand-in for scikit-learn: the split holds out the last \<open>\<lceil>test_size * n\<rceil>\<close> rows, the
  regressor predicts the mean training target plus the sum of the row's features, the
  classifier returns the shares of the labels other than 1 and equal to 1 in the
  training data.
\<close>

definition holdout_learner :: learner where
  "holdout_learner =
     \<lparr> train_test_split =
         (\<lambda>X ys yr test_size random_state stratify.
            let k = length X - nat \<lceil>test_size * of_nat (length X)\<rceil>
            in Inr \<lparr> X_train = take k X, X_test = drop k X,
                     y_surv_train = take k ys, y_surv_test = drop k ys,
                     y_resist_train = take k yr, y_resist_test = drop k yr \<rparr>),
       fit_regressor = (\<lambda>n_estimators random_state X y row. mean y + sum_list row),
       fit_classifier =
         (\<lambda>n_estimators random_state X y row.
            [1 - mean (map (\<lambda>l. if l = 1 then 1 else 0) y),
             mean (map (\<lambda>l. if l = 1 then 1 else 0) y)]) \<rparr>"

text \<open>Four patients with one feature, with varying and with constant survival.\<close>

definition four_features :: dataframe where
  "four_features = [(''age'', [1, 2, 3, 4])]"

definition four_patients :: "real list \<Rightarrow> patient list" where
  "four_patients survival =
     map (\<lambda>(i, s, r). sample_patient \<lparr> pid := patient_id i, survival_months := s,
                                        platinum_resistant := r \<rparr>)
       (zip [1, 2, 3, 4] (zip survival [0, 1, 0, 1]))"

section \<open>Properties\<close>

subsection \<open>Rounding and clipping\<close>

lemma rint_lower: "\<lfloor>x\<rfloor> \<le> rint x"
  by (simp add: rint_def Let_def)

lemma rint_upper: "rint x \<le> \<lceil>x\<rceil>"
proof -
  have "x \<noteq> of_int \<lfloor>x\<rfloor> \<Longrightarrow> \<lceil>x\<rceil> = \<lfloor>x\<rfloor> + 1"
    by (simp add: ceiling_altdef)
  moreover have "x = of_int \<lfloor>x\<rfloor> \<Longrightarrow> rint x = \<lfloor>x\<rfloor>"
    by (simp add: rint_def Let_def)
  moreover have "rint x \<le> \<lfloor>x\<rfloor> + 1"
    by (simp add: rint_def Let_def)
  ultimately show ?thesis
    by (cases "x = of_int \<lfloor>x\<rfloor>") (simp_all add: ceiling_altdef)
qed

lemma rint_ge: "of_int k \<le> x \<Longrightarrow> k \<le> rint x"
proof -
  assume "of_int k \<le> x"
  then have "k \<le> \<lfloor>x\<rfloor>" by (simp add: le_floor_iff)
  then show ?thesis using rint_lower [of x] by linarith
qed

lemma rint_le: "x \<le> of_int k \<Longrightarrow> rint x \<le> k"
proof -
  assume "x \<le> of_int k"
  then have "\<lceil>x\<rceil> \<le> k" by (simp add: ceiling_le_iff)
  then show ?thesis using rint_upper [of x] by linarith
qed

lemma py_round_ge: "of_int k \<le> x * 10 ^ n \<Longrightarrow> of_int k / 10 ^ n \<le> py_round x n"
  unfolding py_round_def using rint_ge [of k "x * 10 ^ n"]
  by (simp add: divide_right_mono)

lemma py_round_le: "x * 10 ^ n \<le> of_int k \<Longrightarrow> py_round x n \<le> of_int k / 10 ^ n"
  unfolding py_round_def using rint_le [of "x * 10 ^ n" k]
  by (simp add: divide_right_mono)


lemma round3_bounds:
  "5 / 100 \<le> x \<Longrightarrow> 5 / 100 \<le> py_round x 3" "x \<le> 95 / 100 \<Longrightarrow> py_round x 3 \<le> 95 / 100"
  using py_round_ge [of 50 x 3] py_round_le [of x 3 950] by simp_all

lemma np_clip_bounds: "lo \<le> hi \<Longrightarrow> lo \<le> np_clip a lo hi \<and> np_clip a lo hi \<le> hi"
  by (simp add: np_clip_def)


subsection \<open>Draw sequences\<close>

lemma length_draws: "length (fst (draws d n g)) = n"
  by (induction n arbitrary: g) (simp_all add: split_beta Let_def)

lemma length_draws_each: "length (fst (draws_each d ps g)) = length ps"
  by (induction ps arbitrary: g) (simp_all add: split_beta Let_def)

subsection \<open>Simplified variant\<close>

lemma simple_patient_age: "35 \<le> age (simple_patient i d) \<and> age (simple_patient i d) \<le> 85"
  by (simp add: simple_patient_def Let_def)


lemma simple_patient_resistance:
  "5 / 100 \<le> resistance_prob_true (simple_patient i d)
   \<and> resistance_prob_true (simple_patient i d) \<le> 95 / 100"
proof -
  let ?r = "max (5 / 100)
              (min (95 / 100)
                 (resist_base (subtype (simple_patient i d))
                  + brca_resist (brca_status (simple_patient i d)) + resistance_noise d))"
  have r: "resistance_prob_true (simple_patient i d) = py_round ?r 3"
    by (simp add: simple_patient_def Let_def)
  have "5 / 100 \<le> ?r" by (rule max.cobounded1)
  moreover have "?r \<le> 95 / 100" by (rule max.boundedI) (simp, rule min.cobounded1)
  ultimately show ?thesis unfolding r using round3_bounds [of ?r] by blast
qed


lemma cohort_loop_all:
  "(\<And>i d. P (simple_patient i d)) \<Longrightarrow> list_all P (fst (cohort_loop ops is g))"
  by (induction "is" arbitrary: g) (simp_all add: split_beta Let_def)


subsection \<open>Full variant\<close>


lemma outcomes_resistance_clip:
  "\<exists>f. o_resistance_prob (fst (outcomes ops m gene_df cnv_df n g))
        = map (\<lambda>i. np_clip (f i) (5 / 100) (95 / 100)) [0..<n]"
  unfolding outcomes_def Let_def split_beta
  by (simp only: fst_conv outcome_columns.select_convs) (rule exI, rule refl)


lemma outcomes_resistance:
  assumes "i < n"
  shows "5 / 100 \<le> o_resistance_prob (fst (outcomes ops m gene_df cnv_df n g)) ! i
     \<and> o_resistance_prob (fst (outcomes ops m gene_df cnv_df n g)) ! i \<le> 95 / 100"
proof -
  obtain f where f: "o_resistance_prob (fst (outcomes ops m gene_df cnv_df n g))
        = map (\<lambda>i. np_clip (f i) (5 / 100) (95 / 100)) [0..<n]"
    using outcomes_resistance_clip [of ops m gene_df cnv_df n g] by auto
  have e: "o_resistance_prob (fst (outcomes ops m gene_df cnv_df n g)) ! i
        = np_clip (f i) (5 / 100) (95 / 100)"
    unfolding f using assms by simp
  have "(5 / 100 :: real) \<le> 95 / 100" by simp
  from np_clip_bounds [OF this, of "f i"] show ?thesis unfolding e .
qed

lemma patient_metadata_age_clip:
  "\<exists>a. length a = n \<and> m_age (fst (patient_metadata ops n g)) = map (\<lambda>x. np_clip (py_int x) 35 85) a"
  unfolding patient_metadata_def Let_def split_beta
  by (simp only: fst_conv metadata.select_convs) (rule exI, rule conjI, rule length_draws, rule refl)

lemma patient_metadata_age:
  assumes "i < n"
  shows "35 \<le> m_age (fst (patient_metadata ops n g)) ! i
     \<and> m_age (fst (patient_metadata ops n g)) ! i \<le> 85"
proof -
  obtain a where a: "length a = n"
      "m_age (fst (patient_metadata ops n g)) = map (\<lambda>x. np_clip (py_int x) 35 85) a"
    using patient_metadata_age_clip [of n ops g] by auto
  have "m_age (fst (patient_metadata ops n g)) ! i = np_clip (py_int (a ! i)) 35 85"
    unfolding a(2) using assms a(1) by simp
  then show ?thesis using np_clip_bounds [of 35 85 "py_int (a ! i)"] by simp
qed



lemma patient_rows_age:
  "(\<And>i. i < n \<Longrightarrow> a \<le> m_age m ! i \<and> m_age m ! i \<le> b)
   \<Longrightarrow> list_all (\<lambda>p. a \<le> age p \<and> age p \<le> b) (patient_rows m out n)"
  by (simp add: patient_rows_def list_all_iff)

lemma patient_rows_resistance:
  "(\<And>i. i < n \<Longrightarrow> a \<le> py_round (o_resistance_prob out ! i) 3
                  \<and> py_round (o_resistance_prob out ! i) 3 \<le> b)
   \<Longrightarrow> list_all (\<lambda>p. a \<le> resistance_prob_true p \<and> resistance_prob_true p \<le> b)
         (patient_rows m out n)"
  by (simp add: patient_rows_def list_all_iff)


lemma generated_patients:
  "fst (fst (generate_demo_data ops gd n g)) =
     (let m = fst (patient_metadata ops n (rng_seed ops 42));
          g1 = snd (patient_metadata ops n (rng_seed ops 42));
          gene_df = zip gene_names (fst (gene_expression ops (m_subtype m) n g1));
          g2 = snd (gene_expression ops (m_subtype m) n g1);
          cnv_df = zip (map (\<lambda>arm. ''cnv_'' @ arm) cnv_arms)
                     (fst (copy_number ops (m_subtype m) n g2));
          g3 = snd (copy_number ops (m_subtype m) n g2)
      in patient_rows m (fst (outcomes ops m gene_df cnv_df n g3)) n)"
  unfolding generate_demo_data_def generate_frames_def Let_def split_beta by simp


lemma full_age_range:
  "list_all (\<lambda>p. 35 \<le> age p \<and> age p \<le> 85) (fst (fst (generate_demo_data ops gd n g)))"
  unfolding generated_patients Let_def
  by (rule patient_rows_age) (rule patient_metadata_age)

lemma full_resistance_range:
  "list_all (\<lambda>p. 5 / 100 \<le> resistance_prob_true p \<and> resistance_prob_true p \<le> 95 / 100)
     (fst (fst (generate_demo_data ops gd n g)))"
  unfolding generated_patients Let_def
  by (rule patient_rows_resistance) (metis outcomes_resistance round3_bounds)


subsection \<open>Identifiers\<close>









lemma patient_id_examples:
  "patient_id 7 = ''OV007''" "patient_id 42 = ''OV042''" "patient_id 200 = ''OV200''"
  "patient_id 1234 = ''OV1234''"
  by (simp_all add: patient_id_def zfill_def digit_def decimal.simps numeral_2_eq_2)

subsection \<open>Column names of the generated frames\<close>

lemma length_gene_names: "length gene_names = 50"
  by (simp add: gene_names_def)

lemma length_cnv_arms: "length cnv_arms = 11"
  by (simp add: cnv_arms_def)

lemma gene_names_literal:
  "gene_names =
     [''TP53'', ''BRCA1'', ''BRCA2'', ''PIK3CA'', ''PTEN'', ''MYC'', ''CCNE1'', ''RB1'',
      ''KRAS'', ''AKT1'', ''GENE_011'', ''GENE_012'', ''GENE_013'', ''GENE_014'', ''GENE_015'',
      ''GENE_016'', ''GENE_017'', ''GENE_018'', ''GENE_019'', ''GENE_020'', ''GENE_021'',
      ''GENE_022'', ''GENE_023'', ''GENE_024'', ''GENE_025'', ''GENE_026'', ''GENE_027'',
      ''GENE_028'', ''GENE_029'', ''GENE_030'', ''GENE_031'', ''GENE_032'', ''GENE_033'',
      ''GENE_034'', ''GENE_035'', ''GENE_036'', ''GENE_037'', ''GENE_038'', ''GENE_039'',
      ''GENE_040'', ''GENE_041'', ''GENE_042'', ''GENE_043'', ''GENE_044'', ''GENE_045'',
      ''GENE_046'', ''GENE_047'', ''GENE_048'', ''GENE_049'', ''GENE_050'']"
  by (simp add: gene_names_def upt_conv_Cons zfill_def digit_def decimal.simps numeral_2_eq_2)

lemma distinct_gene_names: "distinct gene_names"
  unfolding gene_names_literal by simp

lemma dropped_names:
  "set (drop 20 gene_names)
     \<inter> set ([''log_ca125''] @ take 20 gene_names @ map (\<lambda>arm. ''cnv_'' @ arm) cnv_arms) = {}"
  unfolding gene_names_literal cnv_arms_def by simp

lemma length_gene_expression: "length (fst (gene_expression ops st n g)) = 50"
  by (simp add: gene_expression_def split_beta Let_def length_draws length_gene_names)

lemma length_copy_number: "length (fst (copy_number ops st n g)) = 11"
  by (simp add: copy_number_def split_beta Let_def length_draws length_cnv_arms)

lemma frames_names:
  "(case fst (generate_frames ops n) of (patients, gene_df, cnv_df, out) \<Rightarrow>
      map fst gene_df = gene_names \<and> map fst cnv_df = map (\<lambda>arm. ''cnv_'' @ arm) cnv_arms)"
  by (simp add: generate_frames_def split_beta Let_def length_gene_expression
      length_copy_number length_gene_names length_cnv_arms)

lemma features_eq:
  "snd (fst (generate_demo_data ops gd n g)) =
    (case fst (generate_frames ops n) of (patients, gene_df, cnv_df, out) \<Rightarrow>
       gd patients @ [(''log_ca125'', map (\<lambda>c. log 10 (of_int c)) (m_ca125 patients))]
       @ take 20 gene_df @ cnv_df)"
  by (simp add: generate_demo_data_def feature_matrix_def split_beta)

subsection \<open>Generated cohorts\<close>












text \<open>
  C7. In both variants every generated patient has an age within [35, 85] and a recorded
  true resistance probability within [0.05, 0.95], whatever the sampler draws.
\<close>

theorem age_resistance_range:
  "list_all (\<lambda>p. 35 \<le> age p \<and> age p \<le> 85) (fst (fst (generate_demo_data ops get_dummies n g)))
   \<and> list_all (\<lambda>p. 5 / 100 \<le> resistance_prob_true p \<and> resistance_prob_true p \<le> 95 / 100)
       (fst (fst (generate_demo_data ops get_dummies n g)))
   \<and> list_all (\<lambda>p. 35 \<le> age p \<and> age p \<le> 85) (fst (generate_cohort_simple ops' g'))
   \<and> list_all (\<lambda>p. 5 / 100 \<le> resistance_prob_true p \<and> resistance_prob_true p \<le> 95 / 100)
       (fst (generate_cohort_simple ops' g'))"
proof -
  have a: "list_all (\<lambda>p. 35 \<le> age p \<and> age p \<le> 85) (fst (generate_cohort_simple ops' g'))"
    unfolding generate_cohort_simple_def by (rule cohort_loop_all) (rule simple_patient_age)
  have r: "list_all (\<lambda>p. 5 / 100 \<le> resistance_prob_true p \<and> resistance_prob_true p \<le> 95 / 100)
       (fst (generate_cohort_simple ops' g'))"
    unfolding generate_cohort_simple_def by (rule cohort_loop_all) (rule simple_patient_resistance)
  show ?thesis
    using a r full_age_range [of ops get_dummies n g] full_resistance_range [of ops get_dummies n g]
    by blast
qed









lemma map_of_take_found:
  assumes "nm \<in> fst ` set (take k df)"
  shows "map_of (take k df @ other) nm = map_of df nm"
proof -
  obtain v where v: "map_of (take k df) nm = Some v"
    using assms by (meson map_of_eq_None_iff option.exhaust)
  have "map_of df nm = map_of (take k df @ drop k df) nm" by simp
  also have "\<dots> = Some v" unfolding map_of_append using v by simp
  finally show ?thesis unfolding map_of_append using v by simp
qed

lemma column_replace:
  assumes "length gene_data = 50" and "nm \<in> set (take 20 gene_names)"
  shows "column (take 20 (zip gene_names gene_data) @ other) nm
           = column (zip gene_names gene_data) nm"
proof -
  have "map fst (take 20 (zip gene_names gene_data)) = take 20 gene_names"
    using assms(1) by (simp add: take_map [symmetric] length_gene_names)
  then have "fst ` set (take 20 (zip gene_names gene_data)) = set (take 20 gene_names)"
    by (metis set_map)
  then have "nm \<in> fst ` set (take 20 (zip gene_names gene_data))"
    using assms(2) by simp
  then show ?thesis unfolding column_def by (simp only: map_of_take_found)
qed

lemma read_gene_names:
  "''TP53'' \<in> set (take 20 gene_names)" "''BRCA1'' \<in> set (take 20 gene_names)"
  "''PTEN'' \<in> set (take 20 gene_names)" "''PIK3CA'' \<in> set (take 20 gene_names)"
  unfolding gene_names_literal by simp_all

lemma outcomes_replace:
  assumes "length gene_data = 50"
  shows "outcomes ops m (take 20 (zip gene_names gene_data) @ other) cnv_df n g
           = outcomes ops m (zip gene_names gene_data) cnv_df n g"
  unfolding outcomes_def
  by (simp only: column_replace [OF assms read_gene_names(1)]
      column_replace [OF assms read_gene_names(2)]
      column_replace [OF assms read_gene_names(3)]
      column_replace [OF assms read_gene_names(4)])

lemma feature_matrix_replace:
  assumes "20 \<le> length gene_df"
  shows "feature_matrix gd m (take 20 gene_df @ other) cnv_df = feature_matrix gd m gene_df cnv_df"
  using assms by (simp add: feature_matrix_def)

lemma frames_from_genes_replace:
  assumes "length gene_data = 50"
  shows "fst (frames_from_genes ops n m (take 20 (zip gene_names gene_data) @ other) g2)
     = (case fst (frames_from_genes ops n m (zip gene_names gene_data) g2) of
          (p, gene_df, cnv_df, out) \<Rightarrow> (p, take 20 gene_df @ other, cnv_df, out))"
  unfolding frames_from_genes_def Let_def split_beta outcomes_replace [OF assms]
  by simp

lemma train_on_frames_replace:
  assumes "length gene_data = 50"
  shows "train_on_frames sk gd n
           (fst (frames_from_genes ops n m (take 20 (zip gene_names gene_data) @ other) g2))
     = train_on_frames sk gd n (fst (frames_from_genes ops n m (zip gene_names gene_data) g2))"
proof -
  have l: "20 \<le> length (zip gene_names gene_data)"
    using assms by (simp add: length_gene_names)
  show ?thesis
    unfolding frames_from_genes_replace [OF assms]
    by (simp add: train_on_frames_def split_beta frames_from_genes_def Let_def
        feature_matrix_replace [OF l])
qed

lemma generate_frames_split:
  "generate_frames ops n =
     frames_from_genes ops n (fst (patient_metadata ops n (rng_seed ops 42)))
       (zip gene_names
          (fst (gene_expression ops (m_subtype (fst (patient_metadata ops n (rng_seed ops 42)))) n
                  (snd (patient_metadata ops n (rng_seed ops 42))))))
       (snd (gene_expression ops (m_subtype (fst (patient_metadata ops n (rng_seed ops 42)))) n
               (snd (patient_metadata ops n (rng_seed ops 42)))))"
  unfolding generate_frames_def frames_from_genes_def Let_def split_beta by simp

lemma train_on_generated:
  "train_on_frames sk gd n (fst (generate_frames ops n))
     = train_models sk (snd (fst (generate_demo_data ops gd n g)))
         (fst (fst (generate_demo_data ops gd n g)))"
  by (simp add: train_on_frames_def generate_demo_data_def split_beta)

lemma demo_training_eq:
  "demo_training sk ops gd g
     = train_models sk (snd (fst (generate_demo_data ops gd 200 g)))
         (fst (fst (generate_demo_data ops gd 200 g)))"
  by (simp add: demo_training_def split_beta)

text \<open>
  C9. The feature matrix the full generator returns is the frame of clinical dummy
  features, then the column \<^verbatim>\<open>log_ca125\<close>, then the first 20 columns of the gene
  expression frame, then the whole copy number frame. The gene expression frame has the
  50 columns of \<open>gene_names\<close>, the copy number frame the 11 columns of \<open>cnv_arms\<close>; the
  gene names are pairwise distinct, and none of the 30 gene names past the first 20
  names a column taken from the gene frame, the copy number frame or \<^verbatim>\<open>log_ca125\<close>.
  The other 30 gene columns reach neither model: the script trains on the generator's
  feature matrix and patient table, and if the columns of the gene frame past the first
  20 are replaced by any others once the frame is built, the copy number frame, the
  outcome columns, and with them the result of the training, the fitted models and the
  metrics, are the same.
\<close>

theorem feature_matrix_gene_columns:
  "(case fst (generate_frames ops n) of (patients, gene_df, cnv_df, out) \<Rightarrow>
      snd (fst (generate_demo_data ops get_dummies n g))
        = get_dummies patients
          @ [(''log_ca125'', map (\<lambda>c. log 10 (of_int c)) (m_ca125 patients))]
          @ take 20 gene_df @ cnv_df
      \<and> map fst gene_df = gene_names
      \<and> map fst cnv_df = map (\<lambda>arm. ''cnv_'' @ arm) cnv_arms)
   \<and> length gene_names = 50
   \<and> length (take 20 gene_names) = 20
   \<and> length (drop 20 gene_names) = 30
   \<and> length cnv_arms = 11
   \<and> distinct gene_names
   \<and> set (drop 20 gene_names)
       \<inter> set ([''log_ca125''] @ take 20 gene_names @ map (\<lambda>arm. ''cnv_'' @ arm) cnv_arms) = {}
   \<and> demo_training sk ops get_dummies g
       = train_models sk (snd (fst (generate_demo_data ops get_dummies 200 g)))
           (fst (fst (generate_demo_data ops get_dummies 200 g)))
   \<and> (let patients = fst (patient_metadata ops n (rng_seed ops 42));
           g1 = snd (patient_metadata ops n (rng_seed ops 42));
           gene_df = zip gene_names (fst (gene_expression ops (m_subtype patients) n g1));
           g2 = snd (gene_expression ops (m_subtype patients) n g1)
       in generate_frames ops n = frames_from_genes ops n patients gene_df g2
          \<and> (\<forall>other.
                fst (frames_from_genes ops n patients (take 20 gene_df @ other) g2)
                  = (case fst (generate_frames ops n) of
                       (p, gdf, cnv_df, out) \<Rightarrow> (p, take 20 gdf @ other, cnv_df, out))
                \<and> train_on_frames sk get_dummies n
                    (fst (frames_from_genes ops n patients (take 20 gene_df @ other) g2))
                  = train_models sk (snd (fst (generate_demo_data ops get_dummies n g)))
                      (fst (fst (generate_demo_data ops get_dummies n g)))))"
proof -
  have 1: "(case fst (generate_frames ops n) of (patients, gene_df, cnv_df, out) \<Rightarrow>
      snd (fst (generate_demo_data ops get_dummies n g))
        = get_dummies patients
          @ [(''log_ca125'', map (\<lambda>c. log 10 (of_int c)) (m_ca125 patients))]
          @ take 20 gene_df @ cnv_df
      \<and> map fst gene_df = gene_names
      \<and> map fst cnv_df = map (\<lambda>arm. ''cnv_'' @ arm) cnv_arms)"
    using frames_names [of ops n] features_eq [of ops get_dummies n g]
    by (simp add: split_beta)
  define patients where "patients = fst (patient_metadata ops n (rng_seed ops 42))"
  define g1 where "g1 = snd (patient_metadata ops n (rng_seed ops 42))"
  define gene_data where "gene_data = fst (gene_expression ops (m_subtype patients) n g1)"
  define g2 where "g2 = snd (gene_expression ops (m_subtype patients) n g1)"
  have len: "length gene_data = 50"
    unfolding gene_data_def by (rule length_gene_expression)
  have split: "generate_frames ops n = frames_from_genes ops n patients (zip gene_names gene_data) g2"
    unfolding patients_def g1_def gene_data_def g2_def by (rule generate_frames_split)
  have a: "fst (frames_from_genes ops n patients (take 20 (zip gene_names gene_data) @ other) g2)
      = (case fst (generate_frames ops n) of
           (p, gdf, cnv_df, out) \<Rightarrow> (p, take 20 gdf @ other, cnv_df, out))" for other
    unfolding split by (rule frames_from_genes_replace [OF len])
  have b: "train_on_frames sk get_dummies n
        (fst (frames_from_genes ops n patients (take 20 (zip gene_names gene_data) @ other) g2))
      = train_models sk (snd (fst (generate_demo_data ops get_dummies n g)))
          (fst (fst (generate_demo_data ops get_dummies n g)))" for other
    unfolding train_on_frames_replace [OF len] split [symmetric] by (rule train_on_generated)
  have 2: "(let patients = fst (patient_metadata ops n (rng_seed ops 42));
           g1 = snd (patient_metadata ops n (rng_seed ops 42));
           gene_df = zip gene_names (fst (gene_expression ops (m_subtype patients) n g1));
           g2 = snd (gene_expression ops (m_subtype patients) n g1)
       in generate_frames ops n = frames_from_genes ops n patients gene_df g2
          \<and> (\<forall>other.
                fst (frames_from_genes ops n patients (take 20 gene_df @ other) g2)
                  = (case fst (generate_frames ops n) of
                       (p, gdf, cnv_df, out) \<Rightarrow> (p, take 20 gdf @ other, cnv_df, out))
                \<and> train_on_frames sk get_dummies n
                    (fst (frames_from_genes ops n patients (take 20 gene_df @ other) g2))
                  = train_models sk (snd (fst (generate_demo_data ops get_dummies n g)))
                      (fst (fst (generate_demo_data ops get_dummies n g)))))"
    unfolding Let_def
    using split a b unfolding patients_def g1_def gene_data_def g2_def by blast
  have 3: "length gene_names = 50 \<and> length (take 20 gene_names) = 20
      \<and> length (drop 20 gene_names) = 30 \<and> length cnv_arms = 11"
    using length_gene_names length_cnv_arms by simp
  show ?thesis
    using 1 2 3 distinct_gene_names dropped_names demo_training_eq [of sk ops get_dummies g]
    by blast
qed

subsection \<open>Determinism of the reporter\<close>

text \<open>
  C4. The report of the simplified variant depends on the interpreter's string hash:
  for the same patient and the same sampler, two hash functions that send the
  identifier to different seeds yield different survival predictions.
\<close>

theorem report_simple_hash_dependence:
  "pred_survival (fst (twin_report_simple counting_sampler (\<lambda>s. 1) sample_patient 0)) = 33
   \<and> pred_survival (fst (twin_report_simple counting_sampler (\<lambda>s. 2) sample_patient 0)) = 36
   \<and> risk_category (fst (twin_report_simple counting_sampler (\<lambda>s. 1) sample_patient 0))
       = LOW_RISK"
  by (simp add: twin_report_simple_def counting_sampler_def sample_patient_def make_report_def
      risk_categorization_def Let_def)

subsection \<open>The reporter's threshold classifiers\<close>

lemma risk_categorization_cases:
  "(fst (risk_categorization s) = HIGH_RISK \<longleftrightarrow> s < 15)
   \<and> (fst (risk_categorization s) = MEDIUM_RISK \<longleftrightarrow> 15 \<le> s \<and> s < 30)
   \<and> (fst (risk_categorization s) = LOW_RISK \<longleftrightarrow> 30 \<le> s)"
  by (simp add: risk_categorization_def)

lemma report_simple_is_make_report:
  "\<exists>ps pr. fst (twin_report_simple ops hash p g) = make_report p ps pr"
  by (simp add: twin_report_simple_def Let_def split_beta) blast

text \<open>
  C2. In both variants the report's risk category is the risk categorisation of the
  report's predicted survival, and for every predicted survival \<open>s\<close> that categorisation
  is high exactly when \<open>s < 15\<close>, medium exactly when \<open>15 \<le> s < 30\<close> and low exactly when
  \<open>30 \<le> s\<close>. The three conditions cover the reals and exclude each other, and the
  categories are distinct constructors.
\<close>

theorem risk_category_thresholds:
  "risk_category (twin_report_full models pinfo row)
     = fst (risk_categorization (pred_survival (twin_report_full models pinfo row)))
   \<and> risk_category (fst (twin_report_simple ops hash p g))
     = fst (risk_categorization (pred_survival (fst (twin_report_simple ops hash p g))))
   \<and> (fst (risk_categorization s) = HIGH_RISK \<longleftrightarrow> s < 15)
   \<and> (fst (risk_categorization s) = MEDIUM_RISK \<longleftrightarrow> 15 \<le> s \<and> s < 30)
   \<and> (fst (risk_categorization s) = LOW_RISK \<longleftrightarrow> 30 \<le> s)"
proof -
  have full: "risk_category (twin_report_full models pinfo row)
     = fst (risk_categorization (pred_survival (twin_report_full models pinfo row)))"
    by (simp add: twin_report_full_def make_report_def)
  obtain ps pr where r: "fst (twin_report_simple ops hash p g) = make_report p ps pr"
    using report_simple_is_make_report [of ops hash p g] by auto
  have simple: "risk_category (fst (twin_report_simple ops hash p g))
     = fst (risk_categorization (pred_survival (fst (twin_report_simple ops hash p g))))"
    unfolding r by (simp add: make_report_def)
  show ?thesis
    using full simple risk_categorization_cases [of s] by blast
qed

text \<open>
  C3, as the claim states it, fails at the thresholds themselves: a predicted resistance
  probability of exactly 0.7 yields platinum therapy with monitoring, not the alternative
  therapy, and a probability of exactly 0.4 yields the standard therapy.
\<close>

theorem treatment_boundary_counterexample:
  "treatment_rec
     (twin_report_full \<lparr> predict = (\<lambda>row. 20), predict_proba1 = (\<lambda>row. 7 / 10) \<rparr>
        sample_patient [])
     = Platinum_with_monitoring
   \<and> treatment_recommendation (7 / 10) \<noteq> Alternative_therapy
   \<and> treatment_recommendation (4 / 10) = Standard_platinum"
  by (simp add: twin_report_full_def make_report_def treatment_recommendation_def)

text \<open>
  C3, amended. In both variants the report's treatment recommendation is the
  classification of the report's predicted resistance probability \<open>p\<close> with strict
  comparisons: alternative therapy exactly when \<open>p > 0.7\<close>, platinum with monitoring
  exactly when \<open>0.4 < p \<le> 0.7\<close>, standard platinum therapy exactly when \<open>p \<le> 0.4\<close>.
\<close>

theorem treatment_thresholds:
  "treatment_rec (twin_report_full models pinfo row)
     = treatment_recommendation (pred_resistance_prob (twin_report_full models pinfo row))
   \<and> treatment_rec (fst (twin_report_simple ops hash p g))
     = treatment_recommendation (pred_resistance_prob (fst (twin_report_simple ops hash p g)))
   \<and> (treatment_recommendation q = Alternative_therapy \<longleftrightarrow> 7 / 10 < q)
   \<and> (treatment_recommendation q = Platinum_with_monitoring \<longleftrightarrow> 4 / 10 < q \<and> q \<le> 7 / 10)
   \<and> (treatment_recommendation q = Standard_platinum \<longleftrightarrow> q \<le> 4 / 10)"
proof -
  have full: "treatment_rec (twin_report_full models pinfo row)
     = treatment_recommendation (pred_resistance_prob (twin_report_full models pinfo row))"
    by (simp add: twin_report_full_def make_report_def)
  obtain ps pr where r: "fst (twin_report_simple ops hash p g) = make_report p ps pr"
    using report_simple_is_make_report [of ops hash p g] by auto
  have simple: "treatment_rec (fst (twin_report_simple ops hash p g))
     = treatment_recommendation (pred_resistance_prob (fst (twin_report_simple ops hash p g)))"
    unfolding r by (simp add: make_report_def)
  have cases: "(treatment_recommendation q = Alternative_therapy \<longleftrightarrow> 7 / 10 < q)
   \<and> (treatment_recommendation q = Platinum_with_monitoring \<longleftrightarrow> 4 / 10 < q \<and> q \<le> 7 / 10)
   \<and> (treatment_recommendation q = Standard_platinum \<longleftrightarrow> q \<le> 4 / 10)"
    by (simp add: treatment_recommendation_def)
  show ?thesis
    using full simple cases by blast
qed

text \<open>
  C10. In both variants the report marks the resistance prediction correct exactly when
  the truth values of "predicted probability above 0.5" and "the patient's
  platinum-resistant flag is 1" agree. At a predicted probability of exactly 0.5 the
  prediction counts as sensitive: it is marked correct exactly when the flag is not 1.
\<close>

theorem resistance_correct_iff:
  "resistance_correct (twin_report_full models pinfo row)
     = ((pred_resistance_prob (twin_report_full models pinfo row) > 1 / 2)
        = (platinum_resistant pinfo = 1))
   \<and> resistance_correct (fst (twin_report_simple ops hash p g))
     = ((pred_resistance_prob (fst (twin_report_simple ops hash p g)) > 1 / 2)
        = (platinum_resistant p = 1))
   \<and> resistance_correct
        (twin_report_full \<lparr> predict = f, predict_proba1 = (\<lambda>row. 1 / 2) \<rparr> pinfo row)
     = (platinum_resistant pinfo \<noteq> 1)"
proof -
  have full: "resistance_correct (twin_report_full models pinfo row)
     = ((pred_resistance_prob (twin_report_full models pinfo row) > 1 / 2)
        = (platinum_resistant pinfo = 1))"
    by (simp add: twin_report_full_def make_report_def)
  obtain ps pr where r: "fst (twin_report_simple ops hash p g) = make_report p ps pr"
    using report_simple_is_make_report [of ops hash p g] by auto
  have simple: "resistance_correct (fst (twin_report_simple ops hash p g))
     = ((pred_resistance_prob (fst (twin_report_simple ops hash p g)) > 1 / 2)
        = (platinum_resistant p = 1))"
    unfolding r by (simp add: make_report_def)
  have half: "resistance_correct
        (twin_report_full \<lparr> predict = f, predict_proba1 = (\<lambda>row. 1 / 2) \<rparr> pinfo row)
     = (platinum_resistant pinfo \<noteq> 1)"
    by (simp add: twin_report_full_def make_report_def)
  show ?thesis
    using full simple half by blast
qed

subsection \<open>Evaluation metrics\<close>

lemma mae_nonneg: "mean_absolute_error y p = Inr m \<Longrightarrow> 0 \<le> m"
proof -
  assume a: "mean_absolute_error y p = Inr m"
  have s: "0 \<le> sum_list (map2 (\<lambda>y p. \<bar>y - p\<bar>) y p)"
    by (rule sum_list_nonneg) auto
  from a have "m = sum_list (map2 (\<lambda>y p. \<bar>y - p\<bar>) y p) / of_nat (length y)"
    by (simp add: mean_absolute_error_def split: if_splits)
  then show ?thesis using s by simp
qed

lemma sum_sq_expand:
  "(\<Sum>(a, b)\<leftarrow>ps. (a - t * b) * (a - t * b))
     = (\<Sum>(a, b)\<leftarrow>ps. a * a) - 2 * t * (\<Sum>(a, b)\<leftarrow>ps. a * b) + t * t * (\<Sum>(a, b)\<leftarrow>ps. b * b)"
  for t :: real
  by (induction ps) (auto simp: algebra_simps)

lemma sum_sq_nonneg: "0 \<le> (\<Sum>(a, b)\<leftarrow>ps. (a - t * b) * (a - t * b))" for t :: real
  by (rule sum_list_nonneg) auto

lemma sum_sq_zero:
  fixes ps :: "(real \<times> real) list"
  shows "(\<Sum>(a, b)\<leftarrow>ps. b * b) = 0 \<Longrightarrow> (\<Sum>(a, b)\<leftarrow>ps. a * b) = 0"
proof (induction ps)
  case Nil
  then show ?case by simp
next
  case (Cons p ps)
  obtain a b where p: "p = (a, b)" by (cases p)
  have n: "0 \<le> (\<Sum>(a, b)\<leftarrow>ps. b * b)" by (rule sum_list_nonneg) auto
  have "b * b + (\<Sum>(a, b)\<leftarrow>ps. b * b) = 0" using Cons.prems p by simp
  then have "b * b = 0" "(\<Sum>(a, b)\<leftarrow>ps. b * b) = 0"
    using n zero_le_square [of b] by linarith+
  then show ?case using Cons.IH p by simp
qed

lemma cauchy_schwarz_list:
  fixes ps :: "(real \<times> real) list"
  shows "(\<Sum>(a, b)\<leftarrow>ps. a * b)\<^sup>2 \<le> (\<Sum>(a, b)\<leftarrow>ps. a * a) * (\<Sum>(a, b)\<leftarrow>ps. b * b)"
  (is "?C\<^sup>2 \<le> ?A * ?B")
proof (cases "?B = 0")
  case True
  then show ?thesis using sum_sq_zero [of ps] by simp
next
  case False
  have "0 \<le> ?B" by (rule sum_list_nonneg) auto
  then have Bpos: "0 < ?B" using False by simp
  have "0 \<le> ?A - 2 * (?C / ?B) * ?C + (?C / ?B) * (?C / ?B) * ?B"
    using sum_sq_nonneg [of "?C / ?B" ps] unfolding sum_sq_expand .
  also have "\<dots> = ?A - ?C\<^sup>2 / ?B"
    using False by (simp add: power2_eq_square field_simps)
  finally have "?C\<^sup>2 / ?B \<le> ?A" by simp
  then show ?thesis using Bpos by (simp add: pos_divide_le_eq)
qed


lemma sum_zip_fst:
  "length xs = length ys \<Longrightarrow> (\<Sum>(a, b)\<leftarrow>zip xs ys. f a) = (\<Sum>a\<leftarrow>xs. (f a :: real))"
  by (induction xs ys rule: list_induct2) simp_all

lemma sum_zip_snd:
  "length xs = length ys \<Longrightarrow> (\<Sum>(a, b)\<leftarrow>zip xs ys. f b) = (\<Sum>b\<leftarrow>ys. (f b :: real))"
  by (induction xs ys rule: list_induct2) simp_all

lemma sum_map2_self: "sum_list (map2 (*) xs xs) = (\<Sum>a\<leftarrow>xs. a * (a :: real))"
  by (induction xs) simp_all

lemma pearson_bounds:
  assumes "pearson_correlation xs ys = Some r"
  shows "- 1 \<le> r \<and> r \<le> 1"
proof -
  define dx where "dx = map (\<lambda>x. x - mean xs) xs"
  define dy where "dy = map (\<lambda>y. y - mean ys) ys"
  define sxy where "sxy = sum_list (map2 (*) dx dy)"
  define sxx where "sxx = sum_list (map2 (*) dx dx)"
  define syy where "syy = sum_list (map2 (*) dy dy)"
  from assms have len: "length xs = length ys" and nz: "sxx \<noteq> 0" "syy \<noteq> 0"
    and r: "r = sxy / (sqrt sxx * sqrt syy)"
    by (auto simp: pearson_correlation_def Let_def dx_def dy_def sxy_def sxx_def syy_def
        split: if_splits)
  have l: "length dx = length dy" using len by (simp add: dx_def dy_def)
  have xx: "sxx = (\<Sum>(a, b)\<leftarrow>zip dx dy. a * a)"
    unfolding sxx_def sum_map2_self using sum_zip_fst [OF l, of "\<lambda>a. a * a"] by simp
  have yy: "syy = (\<Sum>(a, b)\<leftarrow>zip dx dy. b * b)"
    unfolding syy_def sum_map2_self using sum_zip_snd [OF l, of "\<lambda>b. b * b"] by simp
  have cs: "sxy\<^sup>2 \<le> sxx * syy"
    unfolding xx yy sxy_def by (rule cauchy_schwarz_list)
  have "0 \<le> sxx" unfolding xx by (rule sum_list_nonneg) auto
  then have px: "0 < sxx" using nz by simp
  have "0 \<le> syy" unfolding yy by (rule sum_list_nonneg) auto
  then have py: "0 < syy" using nz by simp
  have "\<bar>sxy\<bar> = sqrt (sxy\<^sup>2)" by simp
  also have "\<dots> \<le> sqrt (sxx * syy)" using cs by (rule real_sqrt_le_mono)
  also have "\<dots> = sqrt sxx * sqrt syy" by (rule real_sqrt_mult)
  finally have b: "\<bar>sxy\<bar> \<le> sqrt sxx * sqrt syy" .
  have d: "0 < sqrt sxx * sqrt syy" using px py by simp
  have "\<bar>r\<bar> \<le> 1" unfolding r using b d by (simp add: abs_divide)
  then show ?thesis by (simp add: abs_le_iff)
qed

lemma trapezoid_nonneg:
  "sorted (map fst ps) \<Longrightarrow> (\<And>p. p \<in> set ps \<Longrightarrow> 0 \<le> snd p) \<Longrightarrow> 0 \<le> trapezoid ps"
proof (induction ps rule: trapezoid.induct)
  case (1 x0 y0 x1 y1 ps)
  have "0 \<le> (x1 - x0) * (y0 + y1) / 2"
    using "1.prems"(1) "1.prems"(2) [of "(x0, y0)"] "1.prems"(2) [of "(x1, y1)"] by simp
  moreover have "0 \<le> trapezoid ((x1, y1) # ps)"
    using 1 by simp
  ultimately show ?case by simp
qed simp_all

lemma trapezoid_le:
  "sorted (map fst ps) \<Longrightarrow> (\<And>p. p \<in> set ps \<Longrightarrow> 0 \<le> snd p \<and> snd p \<le> 1) \<Longrightarrow> ps \<noteq> []
   \<Longrightarrow> trapezoid ps \<le> fst (last ps) - fst (hd ps)"
proof (induction ps rule: trapezoid.induct)
  case (1 x0 y0 x1 y1 ps)
  have y: "0 \<le> y0" "y0 \<le> 1" "0 \<le> y1" "y1 \<le> 1"
    using "1.prems"(2) [of "(x0, y0)"] "1.prems"(2) [of "(x1, y1)"] by simp_all
  have x: "0 \<le> x1 - x0" using "1.prems"(1) by simp
  have "(x1 - x0) * (y0 + y1) \<le> (x1 - x0) * 2"
    using x y by (intro mult_left_mono) simp_all
  then have a: "(x1 - x0) * (y0 + y1) / 2 \<le> x1 - x0" by simp
  have "trapezoid ((x1, y1) # ps) \<le> fst (last ((x1, y1) # ps)) - x1"
    using 1 by simp
  then show ?case using a by simp
qed simp_all


lemma filter_zip_le:
  "length (filter (\<lambda>(s, x). s \<and> P x) (zip selected xs)) \<le> length (filter id selected)"
proof (induction selected arbitrary: xs)
  case Nil
  then show ?case by simp
next
  case (Cons s selected)
  show ?case
  proof (cases xs)
    case Nil
    then show ?thesis by simp
  next
    case (Cons x xs')
    then show ?thesis using Cons.IH [of xs'] by auto
  qed
qed

lemma rate_at_bounds: "0 \<le> rate_at selected y_score t \<and> rate_at selected y_score t \<le> 1"
proof -
  let ?a = "length (filter (\<lambda>(s, x). s \<and> t \<le> x) (zip selected y_score))"
  let ?b = "length (filter id selected)"
  have "?a \<le> ?b" by (rule filter_zip_le)
  then have "(of_nat ?a :: real) \<le> of_nat ?b" by simp
  then have "(of_nat ?a :: real) / of_nat ?b \<le> 1"
    by (cases "?b = 0") (simp_all add: divide_le_eq_1)
  then show ?thesis unfolding rate_at_def by simp
qed

lemma filter_length_mono:
  "(\<And>x. x \<in> set xs \<Longrightarrow> P x \<Longrightarrow> Q x) \<Longrightarrow> length (filter P xs) \<le> length (filter Q xs)"
  by (induction xs) auto

lemma rate_at_antimono:
  assumes "t' \<le> t"
  shows "rate_at selected y_score t \<le> rate_at selected y_score t'"
proof -
  have "length (filter (\<lambda>(s, x). s \<and> t \<le> x) (zip selected y_score))
      \<le> length (filter (\<lambda>(s, x). s \<and> t' \<le> x) (zip selected y_score))"
    by (rule filter_length_mono) (use assms in auto)
  then show ?thesis unfolding rate_at_def by (simp add: divide_right_mono)
qed

lemma thresholds_descending: "sorted_wrt (\<lambda>a b. b \<le> a) (roc_thresholds y_score)"
  unfolding roc_thresholds_def sorted_wrt_rev by simp

lemma roc_curve_sorted: "sorted (map fst (roc_curve y_true y_score))"
proof -
  let ?f = "rate_at (map (\<lambda>y. y \<noteq> 1) y_true) y_score"
  have m: "map fst (roc_curve y_true y_score) = 0 # map ?f (roc_thresholds y_score)"
    by (simp add: roc_curve_def comp_def)
  have "sorted_wrt (\<lambda>a b. ?f a \<le> ?f b) (roc_thresholds y_score)"
    using thresholds_descending [of y_score]
    by (rule sorted_wrt_mono_rel [rotated]) (simp add: rate_at_antimono)
  then have "sorted (map ?f (roc_thresholds y_score))"
    by (simp add: sorted_wrt_map)
  then show ?thesis unfolding m using rate_at_bounds by auto
qed

lemma roc_curve_points:
  "p \<in> set (roc_curve y_true y_score) \<Longrightarrow> 0 \<le> fst p \<and> fst p \<le> 1 \<and> 0 \<le> snd p \<and> snd p \<le> 1"
  using rate_at_bounds by (auto simp: roc_curve_def)

lemma roc_auc_bounds:
  assumes "roc_auc_score y_true y_score = Inr a"
  shows "0 \<le> a \<and> a \<le> 1"
proof -
  let ?c = "roc_curve y_true y_score"
  from assms have a: "a = trapezoid ?c"
    by (simp add: roc_auc_score_def split: if_splits)
  have ne: "?c \<noteq> []" by (simp add: roc_curve_def)
  have h: "hd ?c = (0, 0)" by (simp add: roc_curve_def)
  have "last ?c \<in> set ?c" using ne by (rule last_in_set)
  then have l: "fst (last ?c) \<le> 1" using roc_curve_points by blast
  have "0 \<le> trapezoid ?c"
    by (rule trapezoid_nonneg [OF roc_curve_sorted]) (use roc_curve_points in blast)
  moreover have "trapezoid ?c \<le> fst (last ?c) - fst (hd ?c)"
    by (rule trapezoid_le [OF roc_curve_sorted _ ne]) (use roc_curve_points in blast)
  ultimately show ?thesis unfolding a using l h by simp
qed

lemma metric_examples:
  "roc_auc_score [0, 1, 0, 1] [1 / 10, 9 / 10, 8 / 10, 7 / 10] = Inr (3 / 4)"
  "pearson_correlation [1, 2, 3] [2, 4, 6] = Some 1"
  "mean_absolute_error [22, 34] [28, 29] = Inr (11 / 2)"
  by (simp_all add: roc_auc_score_def roc_curve_def roc_thresholds_def rate_at_def
      pearson_correlation_def mean_def mean_absolute_error_def real_sqrt_mult [symmetric])

subsection \<open>The model trainer\<close>

lemma sum_squares_zero_iff:
  "(\<Sum>a\<leftarrow>xs. a * (a :: real)) = 0 \<longleftrightarrow> (\<forall>a\<in>set xs. a = 0)"
proof (induction xs)
  case Nil
  then show ?case by simp
next
  case (Cons x xs)
  have n: "0 \<le> (\<Sum>a\<leftarrow>xs. a * a)" by (rule sum_list_nonneg) auto
  have "x * x + (\<Sum>a\<leftarrow>xs. a * a) = 0 \<longleftrightarrow> x * x = 0 \<and> (\<Sum>a\<leftarrow>xs. a * a) = 0"
    using n zero_le_square [of x] by linarith
  then show ?case using Cons.IH by simp
qed

lemma is_constant_iff: "is_constant xs \<longleftrightarrow> (\<exists>c. \<forall>x\<in>set xs. x = c)"
  by (cases xs) (auto simp: is_constant_def list_all_iff)

lemma sum_list_constant: "\<forall>x\<in>set xs. x = c \<Longrightarrow> sum_list xs = of_nat (length xs) * (c :: real)"
  by (induction xs) (simp_all add: algebra_simps)

lemma mean_constant: "xs \<noteq> [] \<Longrightarrow> \<forall>x\<in>set xs. x = c \<Longrightarrow> mean xs = c"
  by (simp add: mean_def sum_list_constant)

lemma deviations_zero_iff:
  "sum_list (map2 (*) (map (\<lambda>x. x - mean xs) xs) (map (\<lambda>x. x - mean xs) xs)) = 0
     \<longleftrightarrow> is_constant xs"
proof -
  have "sum_list (map2 (*) (map (\<lambda>x. x - mean xs) xs) (map (\<lambda>x. x - mean xs) xs)) = 0
      \<longleftrightarrow> (\<forall>x\<in>set xs. x = mean xs)"
    unfolding sum_map2_self sum_squares_zero_iff by simp
  also have "\<dots> \<longleftrightarrow> is_constant xs"
  proof
    assume "\<forall>x\<in>set xs. x = mean xs"
    then show "is_constant xs" unfolding is_constant_iff by blast
  next
    assume "is_constant xs"
    then obtain c where c: "\<forall>x\<in>set xs. x = c" unfolding is_constant_iff by blast
    show "\<forall>x\<in>set xs. x = mean xs"
    proof (cases "xs = []")
      case True
      then show ?thesis by simp
    next
      case False
      then show ?thesis using c mean_constant [OF False c] by simp
    qed
  qed
  finally show ?thesis .
qed

lemma pearson_defined_iff:
  assumes "length xs = length ys"
  shows "pearson_correlation xs ys = None \<longleftrightarrow> is_constant xs \<or> is_constant ys"
  using assms deviations_zero_iff [of xs] deviations_zero_iff [of ys]
  by (simp add: pearson_correlation_def Let_def)

lemma mae_lengths: "mean_absolute_error y p = Inr m \<Longrightarrow> length y = length p"
  by (simp add: mean_absolute_error_def split: if_splits)

lemma train_models_result:
  assumes "train_models sk features targets
             = Inr (survival_model, resistance_model, m, (X_te, y_surv_te, y_resist_te))"
  shows "\<exists>pp. mean_absolute_error y_surv_te (map survival_model X_te) = Inr (survival_mae m)
           \<and> survival_cor m = pearson_correlation (map survival_model X_te) y_surv_te
           \<and> roc_auc_score y_resist_te pp = Inr (resistance_auc m)"
proof -
  let ?X = "map (feature_row features) [0..<length targets]"
  let ?r = "map platinum_resistant targets"
  obtain s where s: "train_test_split sk ?X (map survival_months targets) ?r (3 / 10) 42 ?r = Inr s"
    using assms by (cases "train_test_split sk ?X (map survival_months targets) ?r (3 / 10) 42 ?r")
      (simp_all add: train_models_def Let_def)
  let ?sm = "fit_regressor sk 100 42 (X_train s) (y_surv_train s)"
  let ?pc = "proba_column1 (map (fit_classifier sk 100 42 (X_train s) (y_resist_train s)) (X_test s))"
  obtain pp where pp: "?pc = Inr pp"
    using assms s by (cases ?pc) (simp_all add: train_models_def Let_def)
  obtain mae where mae: "mean_absolute_error (y_surv_test s) (map ?sm (X_test s)) = Inr mae"
    using assms s pp by (cases "mean_absolute_error (y_surv_test s) (map ?sm (X_test s))")
      (simp_all add: train_models_def Let_def)
  obtain auc where auc: "roc_auc_score (y_resist_test s) pp = Inr auc"
    using assms s pp mae by (cases "roc_auc_score (y_resist_test s) pp")
      (simp_all add: train_models_def Let_def)
  have e: "survival_model = ?sm" "X_te = X_test s" "y_surv_te = y_surv_test s"
    "y_resist_te = y_resist_test s"
    "m = \<lparr> survival_mae = mae,
           survival_cor = pearson_correlation (map ?sm (X_test s)) (y_surv_test s),
           resistance_auc = auc \<rparr>"
    using assms s pp mae auc by (auto simp: train_models_def Let_def)
  have "mean_absolute_error y_surv_te (map survival_model X_te) = Inr (survival_mae m)
      \<and> survival_cor m = pearson_correlation (map survival_model X_te) y_surv_te
      \<and> roc_auc_score y_resist_te pp = Inr (resistance_auc m)"
    unfolding e using mae auc by simp
  then show ?thesis by blast
qed

lemma constant_survival_metrics:
  "returned_metrics (train_models holdout_learner four_features (four_patients [24, 24, 24, 24]))
     = Some \<lparr> survival_mae = 7 / 2, survival_cor = None, resistance_auc = 1 / 2 \<rparr>"
  by (simp add: train_models_def holdout_learner_def four_features_def four_patients_def
      feature_row_def Let_def sample_patient_def returned_metrics_def proba_column1_def
      mean_absolute_error_def roc_auc_score_def roc_curve_def roc_thresholds_def rate_at_def
      pearson_correlation_def mean_def)

lemma varying_survival_metrics:
  "returned_metrics (train_models holdout_learner four_features (four_patients [20, 30, 22, 34]))
     = Some \<lparr> survival_mae = 11 / 2, survival_cor = Some 1, resistance_auc = 1 / 2 \<rparr>"
  by (simp add: train_models_def holdout_learner_def four_features_def four_patients_def
      feature_row_def Let_def sample_patient_def returned_metrics_def proba_column1_def
      mean_absolute_error_def roc_auc_score_def roc_curve_def roc_thresholds_def rate_at_def
      pearson_correlation_def mean_def real_sqrt_mult [symmetric])

lemma returned_metrics_Some:
  "returned_metrics r = Some m \<Longrightarrow> \<exists>sm rm a b c. r = Inr (sm, rm, m, (a, b, c))"
  by (cases r) (auto simp: returned_metrics_def split: prod.splits)

text \<open>
  C8, as the claim states it, fails where the correlation is undefined: on a table whose
  survival column is constant the trainer returns its metrics, and the correlation
  among them is no number in [-1, 1] but undefined, since the test labels have no
  variation.
\<close>

theorem trainer_correlation_counterexample:
  "returned_metrics (train_models holdout_learner four_features (four_patients [24, 24, 24, 24]))
     = Some \<lparr> survival_mae = 7 / 2, survival_cor = None, resistance_auc = 1 / 2 \<rparr>
   \<and> pearson_correlation [27, 28] [24, 24] = None"
  using constant_survival_metrics by (simp add: pearson_correlation_def mean_def)

text \<open>
  C8, amended. Whenever the trainer returns, the returned mean absolute error is
  non-negative and the returned area under the curve lies in [0, 1]. The returned
  correlation is the Pearson correlation of the returned survival model's predictions
  on the returned test rows with the returned test labels. It is undefined exactly when
  the test predictions or the test labels are constant, and whenever it is defined it
  lies in [-1, 1].
\<close>

theorem trainer_metric_ranges:
  assumes "train_models sk features targets
             = Inr (survival_model, resistance_model, m, (X_te, y_surv_te, y_resist_te))"
  shows "0 \<le> survival_mae m
    \<and> 0 \<le> resistance_auc m \<and> resistance_auc m \<le> 1
    \<and> survival_cor m = pearson_correlation (map survival_model X_te) y_surv_te
    \<and> (survival_cor m = None
         \<longleftrightarrow> is_constant (map survival_model X_te) \<or> is_constant y_surv_te)
    \<and> (\<forall>r. survival_cor m = Some r \<longrightarrow> - 1 \<le> r \<and> r \<le> 1)"
proof -
  from train_models_result [OF assms] obtain pp where
    a: "mean_absolute_error y_surv_te (map survival_model X_te) = Inr (survival_mae m)"
    and b: "survival_cor m = pearson_correlation (map survival_model X_te) y_surv_te"
    and c: "roc_auc_score y_resist_te pp = Inr (resistance_auc m)"
    by auto
  have l: "length (map survival_model X_te) = length y_surv_te"
    using mae_lengths [OF a] by simp
  show ?thesis
    using mae_nonneg [OF a] roc_auc_bounds [OF c] b pearson_defined_iff [OF l]
      pearson_bounds [of "map survival_model X_te" y_surv_te]
    by auto
qed

theorem trainer_metric_ranges_witness:
  "returned_metrics (train_models holdout_learner four_features (four_patients [20, 30, 22, 34]))
     = Some \<lparr> survival_mae = 11 / 2, survival_cor = Some 1, resistance_auc = 1 / 2 \<rparr>
   \<and> 0 \<le> survival_mae \<lparr> survival_mae = 11 / 2, survival_cor = Some 1, resistance_auc = 1 / 2 \<rparr>
   \<and> - 1 \<le> the (survival_cor \<lparr> survival_mae = 11 / 2, survival_cor = Some 1, resistance_auc = 1 / 2 \<rparr>)
   \<and> the (survival_cor \<lparr> survival_mae = 11 / 2, survival_cor = Some 1, resistance_auc = 1 / 2 \<rparr>) \<le> 1
   \<and> 0 \<le> resistance_auc \<lparr> survival_mae = 11 / 2, survival_cor = Some 1, resistance_auc = 1 / 2 \<rparr>
   \<and> resistance_auc \<lparr> survival_mae = 11 / 2, survival_cor = Some 1, resistance_auc = 1 / 2 \<rparr> \<le> 1"
proof -
  obtain sm rm a b c where h:
    "train_models holdout_learner four_features (four_patients [20, 30, 22, 34])
       = Inr (sm, rm, \<lparr> survival_mae = 11 / 2, survival_cor = Some 1, resistance_auc = 1 / 2 \<rparr>,
              (a, b, c))"
    using returned_metrics_Some [OF varying_survival_metrics] by auto
  have t: "0 \<le> survival_mae \<lparr> survival_mae = 11 / 2, survival_cor = Some 1, resistance_auc = 1 / 2 \<rparr>
      \<and> 0 \<le> resistance_auc \<lparr> survival_mae = 11 / 2, survival_cor = Some 1, resistance_auc = 1 / 2 \<rparr>
      \<and> resistance_auc \<lparr> survival_mae = 11 / 2, survival_cor = Some 1, resistance_auc = 1 / 2 \<rparr> \<le> 1
      \<and> (\<forall>r. survival_cor \<lparr> survival_mae = 11 / 2, survival_cor = Some 1, resistance_auc = 1 / 2 \<rparr>
               = Some r \<longrightarrow> - 1 \<le> r \<and> r \<le> 1)"
    using trainer_metric_ranges [OF h] by blast
  show ?thesis
    using varying_survival_metrics t by simp
qed

text \<open>
  X1. The trainer handles no exception of the split: whatever error the split raises is
  the result of the trainer, and no model is returned.
\<close>

theorem split_error_propagates:
  "train_models (sk \<lparr> train_test_split := (\<lambda>X ys yr test_size random_state stratify. Inl e) \<rparr>)
     features targets = Inl e"
  by (simp add: train_models_def Let_def)

text \<open>
  X2. For a fixed string hash the report of the simplified variant, and the state it
  leaves the generator in, do not depend on the state of the generator before the
  report: the reporter reseeds it. Generating the report again gives the same report.
\<close>

theorem report_simple_reseeds:
  "twin_report_simple ops hash p g = twin_report_simple ops hash p g2
   \<and> twin_report_simple ops hash p (snd (twin_report_simple ops hash p g))
       = twin_report_simple ops hash p g"
  by (simp add: twin_report_simple_def)


end
